theory Spec2Isabelle
  imports Main "HOL-Library.Word"
begin

section \<open>Credential hasher (server/auth.ts: hashPassword, comparePasswords)\<close>

text \<open>
  A Node \<open>Buffer\<close> is a list of bytes. The two \<open>crypto\<close> primitives the code calls
  are not part of the repository: \<open>scrypt\<close> is a parameter of the model (a
  deterministic function of password, salt and key length), and the bytes returned by
  \<open>randomBytes(16)\<close> are an explicit argument \<open>rnd\<close> of \<open>hashPassword\<close>.
\<close>

type_synonym byte = "8 word"
type_synonym buffer = "byte list"
type_synonym kdf = "string \<Rightarrow> string \<Rightarrow> nat \<Rightarrow> buffer"

datatype js_error = TypeError | RangeError | Error string

text \<open>\<open>buf.toString("hex")\<close>: two lower-case hexadecimal digits per byte.\<close>

definition hexdigit :: "nat \<Rightarrow> char" where
  "hexdigit n = (if n < 10 then char_of (48 + n) else char_of (87 + n))"

definition toHex :: "buffer \<Rightarrow> string" where
  "toHex buf = concat (map (\<lambda>b. [hexdigit (unat b div 16), hexdigit (unat b mod 16)]) buf)"

text \<open>
  \<open>Buffer.from(s, "hex")\<close>: decodes pairs of hexadecimal digits (either case) and stops
  at the first pair that is not hexadecimal; a trailing single character is dropped.
  It never throws.
\<close>

definition hexval :: "char \<Rightarrow> nat option" where
  "hexval c =
     (let n = (of_char c :: nat)
      in if 48 \<le> n \<and> n \<le> 57 then Some (n - 48)
         else if 97 \<le> n \<and> n \<le> 102 then Some (n - 87)
         else if 65 \<le> n \<and> n \<le> 70 then Some (n - 55)
         else None)"

fun fromHex :: "string \<Rightarrow> buffer" where
  "fromHex (a # b # rest) =
     (case hexval a of
        None \<Rightarrow> []
      | Some x \<Rightarrow>
          (case hexval b of
             None \<Rightarrow> []
           | Some y \<Rightarrow> word_of_nat (16 * x + y) # fromHex rest))"
| "fromHex _ = []"

text \<open>\<open>s.split(sep)\<close> for a one-character separator: never returns an empty array.\<close>

fun split_str :: "char \<Rightarrow> string \<Rightarrow> string list" where
  "split_str sep [] = [[]]"
| "split_str sep (c # cs) =
     (if c = sep then [] # split_str sep cs
      else (case split_str sep cs of
              [] \<Rightarrow> [[c]]
            | p # ps \<Rightarrow> (c # p) # ps))"

text \<open>\<open>crypto.timingSafeEqual\<close>: throws a RangeError when the byte lengths differ.\<close>

definition timingSafeEqual :: "buffer \<Rightarrow> buffer \<Rightarrow> js_error + bool" where
  "timingSafeEqual a b = (if length a \<noteq> length b then Inl RangeError else Inr (a = b))"

definition hashPassword :: "kdf \<Rightarrow> buffer \<Rightarrow> string \<Rightarrow> string" where
  "hashPassword scrypt rnd password =
     (let salt = toHex rnd;
          buf = scrypt password salt 64
      in toHex buf @ ''.'' @ salt)"

text \<open>
  \<open>const [hashed, salt] = stored.split(".")\<close>: with no \<open>.\<close> in \<open>stored\<close> the salt is
  \<open>undefined\<close> and \<open>scrypt\<close> rejects it with a TypeError; parts after the second are
  ignored. The salt string is passed to \<open>scrypt\<close> as it is (it is not hex-decoded).
\<close>

definition comparePasswords :: "kdf \<Rightarrow> string \<Rightarrow> string \<Rightarrow> js_error + bool" where
  "comparePasswords scrypt supplied stored =
     (case split_str CHR ''.'' stored of
        [] \<Rightarrow> Inl TypeError
      | [hashed] \<Rightarrow> Inl TypeError
      | hashed # salt # _ \<Rightarrow>
          (let hashedBuf = fromHex hashed;
               suppliedBuf = scrypt supplied salt 64
           in timingSafeEqual hashedBuf suppliedBuf))"

section \<open>Data model (shared/schema.ts)\<close>

text \<open>
  One record per table, one field per column, in the order of the table definition.
  A column without \<open>.notNull()\<close> is nullable and has an \<open>option\<close> type (\<open>None\<close> is
  SQL NULL). Timestamps are natural numbers. A \<open>jsonb\<close> column holds a JSON value; the
  JavaScript value \<open>null\<close> is written to it as SQL NULL and read back as \<open>null\<close>, so
  \<open>JNull\<close> in such a column is SQL NULL. An \<open>integer\<close> column holds an \<open>int\<close>, the
  store checking its 32-bit range.
  Field names are the source's, with the table as a suffix where two tables (or a HOL
  constant) share the name.
\<close>

type_synonym timestamp = nat

datatype json =
    JNull
  | JBool bool
  | JNum int
  | JStr string
  | JArr "json list"
  | JObj "(string \<times> json) list"

record user =
  id_user :: string
  username :: string
  email_user :: string
  password :: string
  role :: string
  banned :: "bool option"
  createdAt_user :: "timestamp option"
  updatedAt_user :: "timestamp option"

record event =
  id_event :: string
  userId :: string
  name_event :: string
  description :: "string option"
  eventDate :: "string option"
  eventTime :: "string option"
  qrCodeUrl :: "string option"
  registrationUrl :: "string option"
  isActive :: "bool option"
  createdAt_event :: "timestamp option"
  updatedAt_event :: "timestamp option"

record qr_settings =
  id_qr :: string
  eventId_qr :: string
  backgroundImage :: "string option"
  qrSize :: "int option"
  qrPosition :: json
  textOverlays :: json
  customFields :: json
  createdAt_qr :: "timestamp option"
  updatedAt_qr :: "timestamp option"

record form_schema =
  id_fs :: string
  eventId_fs :: string
  schema_fs :: json
  layout :: json
  responsiveSettings :: json
  createdAt_fs :: "timestamp option"
  updatedAt_fs :: "timestamp option"

record registration =
  id_reg :: string
  eventId_reg :: string
  name_reg :: string
  phone :: string
  position :: "string option"
  email_reg :: "string option"
  customData :: json
  registeredAt :: "timestamp option"

text \<open>
  \<open>InsertUser\<close> and \<open>InsertEvent\<close> (the \<open>createInsertSchema(...).omit(...)\<close> types):
  a column with a default or a nullable column is an optional key, \<open>None\<close> meaning
  that the key is absent; for a nullable column the value may be null as well.
\<close>

record insert_user =
  ins_username :: string
  ins_email :: string
  ins_password :: string
  ins_role :: "string option"
  ins_banned :: "bool option option"

record insert_event =
  ins_userId :: string
  ins_name :: string
  ins_description :: "string option option"
  ins_eventDate :: "string option option"
  ins_eventTime :: "string option option"
  ins_isActive :: "bool option option"

text \<open>
  \<open>Partial<User>\<close>, \<open>Partial<Event>\<close>, ...: every column is an optional key. \<open>None\<close> is
  an absent key, \<open>Some v\<close> a supplied value (\<open>Some None\<close> a supplied null).
\<close>

record partial_user =
  set_id_user :: "string option"
  set_username :: "string option"
  set_email_user :: "string option"
  set_password :: "string option"
  set_role :: "string option"
  set_banned :: "bool option option"
  set_createdAt_user :: "timestamp option option"
  set_updatedAt_user :: "timestamp option option"

record partial_event =
  set_id_event :: "string option"
  set_userId :: "string option"
  set_name_event :: "string option"
  set_description :: "string option option"
  set_eventDate :: "string option option"
  set_eventTime :: "string option option"
  set_qrCodeUrl :: "string option option"
  set_registrationUrl :: "string option option"
  set_isActive :: "bool option option"
  set_createdAt_event :: "timestamp option option"
  set_updatedAt_event :: "timestamp option option"

record partial_qr_settings =
  set_id_qr :: "string option"
  set_eventId_qr :: "string option"
  set_backgroundImage :: "string option option"
  set_qrSize :: "int option option"
  set_qrPosition :: "json option"
  set_textOverlays :: "json option"
  set_customFields :: "json option"
  set_createdAt_qr :: "timestamp option option"
  set_updatedAt_qr :: "timestamp option option"

record partial_form_schema =
  set_id_fs :: "string option"
  set_eventId_fs :: "string option"
  set_schema_fs :: "json option"
  set_layout :: "json option"
  set_responsiveSettings :: "json option"
  set_createdAt_fs :: "timestamp option option"
  set_updatedAt_fs :: "timestamp option option"

record partial_registration =
  set_id_reg :: "string option"
  set_eventId_reg :: "string option"
  set_name_reg :: "string option"
  set_phone :: "string option"
  set_position :: "string option option"
  set_email_reg :: "string option option"
  set_customData :: "json option"
  set_registeredAt :: "timestamp option option"

section \<open>The relational store\<close>

text \<open>
  A table is the list of its rows. The \<open>password_reset_tokens\<close> table is left out: no
  operation of the storage layer reads or writes it. A string stands for a text that
  the store can hold, a timestamp for a valid date.
\<close>

record database =
  users :: "user list"
  events :: "event list"
  qrSettings :: "qr_settings list"
  formSchemas :: "form_schema list"
  registrations :: "registration list"

text \<open>The range of a PostgreSQL \<open>integer\<close>; NULL is in range.\<close>

fun int4 :: "int option \<Rightarrow> bool" where
  "int4 None = True"
| "int4 (Some n) = (- 2147483648 \<le> n \<and> n \<le> 2147483647)"

text \<open>
  The constraints the table definitions declare: primary keys, \<open>.unique()\<close>,
  \<open>.references(...)\<close>, the \<open>varchar\<close> lengths, the range of the \<open>integer\<close> column
  and \<open>.notNull()\<close> on the \<open>jsonb\<close> column \<open>schema\<close> (the other \<open>.notNull()\<close>
  columns have types without null). The store refuses a statement whose result would
  break one of them.
\<close>

definition db_ok :: "database \<Rightarrow> bool" where
  "db_ok d \<longleftrightarrow>
     distinct (map id_user (users d)) \<and>
     distinct (map username (users d)) \<and>
     distinct (map email_user (users d)) \<and>
     list_all (\<lambda>u. length (username u) \<le> 255 \<and> length (email_user u) \<le> 255 \<and>
                     length (role u) \<le> 50) (users d) \<and>
     distinct (map id_event (events d)) \<and>
     list_all (\<lambda>e. userId e \<in> set (map id_user (users d))) (events d) \<and>
     distinct (map id_qr (qrSettings d)) \<and>
     list_all (\<lambda>q. eventId_qr q \<in> set (map id_event (events d)) \<and> int4 (qrSize q))
       (qrSettings d) \<and>
     distinct (map id_fs (formSchemas d)) \<and>
     list_all (\<lambda>f. eventId_fs f \<in> set (map id_event (events d)) \<and> schema_fs f \<noteq> JNull)
       (formSchemas d) \<and>
     distinct (map id_reg (registrations d)) \<and>
     list_all (\<lambda>r. eventId_reg r \<in> set (map id_event (events d))) (registrations d)"

datatype storage_error = ConstraintViolation | NumericValueOutOfRange | NoValuesToSet

definition commit :: "database \<Rightarrow> 'a \<Rightarrow> storage_error + (database \<times> 'a)" where
  "commit d' result = (if db_ok d' then Inr (d', result) else Inl ConstraintViolation)"

text \<open>\<open>.set({...})\<close> leaves a column whose key is absent as it is.\<close>

fun set_col :: "'a option \<Rightarrow> 'a \<Rightarrow> 'a" where
  "set_col None old = old"
| "set_col (Some v) old = v"

text \<open>\<open>.values({...})\<close> takes the column default for an absent key.\<close>

fun or_default :: "'a option \<Rightarrow> 'a \<Rightarrow> 'a" where
  "or_default None dflt = dflt"
| "or_default (Some v) dflt = v"

text \<open>
  \<open>.orderBy(desc(col))\<close> on a nullable timestamp: PostgreSQL puts NULL first in a
  descending order. The order of rows with equal keys is not fixed by SQL; here an
  insertion sort keeps them in table order.
\<close>

fun desc_before :: "timestamp option \<Rightarrow> timestamp option \<Rightarrow> bool" where
  "desc_before None _ = True"
| "desc_before (Some a) None = False"
| "desc_before (Some a) (Some b) = (b \<le> a)"

fun insert_desc :: "('a \<Rightarrow> timestamp option) \<Rightarrow> 'a \<Rightarrow> 'a list \<Rightarrow> 'a list" where
  "insert_desc k x [] = [x]"
| "insert_desc k x (y # ys) =
     (if desc_before (k x) (k y) then x # y # ys else y # insert_desc k x ys)"

definition orderBy_desc :: "('a \<Rightarrow> timestamp option) \<Rightarrow> 'a list \<Rightarrow> 'a list" where
  "orderBy_desc k rows = foldr (insert_desc k) rows []"

section \<open>Data access layer (server/storage.ts, class DatabaseStorage)\<close>

text \<open>
  Every operation takes the database and returns the new one with its result, or the
  error the store raises. Values the store generates are arguments: \<open>newId\<close> for
  \<open>gen_random_uuid()\<close>, \<open>now\<close> for \<open>defaultNow()\<close> and \<open>new Date()\<close>. A query
  \<open>const [row] = await db.select()...\<close> yields the first matching row.
\<close>

definition first_row :: "'a list \<Rightarrow> 'a option" where
  "first_row rows = (case rows of [] \<Rightarrow> None | r # _ \<Rightarrow> Some r)"

subsection \<open>Users\<close>

definition createUser ::
  "database \<Rightarrow> string \<Rightarrow> timestamp \<Rightarrow> insert_user \<Rightarrow> storage_error + (database \<times> user)" where
  "createUser d newId now insertUser =
     (let user = \<lparr> id_user = newId,
                   username = ins_username insertUser,
                   email_user = ins_email insertUser,
                   password = ins_password insertUser,
                   role = or_default (ins_role insertUser) ''user'',
                   banned = or_default (ins_banned insertUser) (Some False),
                   createdAt_user = Some now,
                   updatedAt_user = Some now \<rparr>
      in commit (d\<lparr>users := users d @ [user]\<rparr>) user)"

definition getUser :: "database \<Rightarrow> string \<Rightarrow> user option" where
  "getUser d i = first_row (filter (\<lambda>u. id_user u = i) (users d))"

definition getUserByUsername :: "database \<Rightarrow> string \<Rightarrow> user option" where
  "getUserByUsername d n = first_row (filter (\<lambda>u. username u = n) (users d))"

definition getUserByEmail :: "database \<Rightarrow> string \<Rightarrow> user option" where
  "getUserByEmail d e = first_row (filter (\<lambda>u. email_user u = e) (users d))"

definition getAllUsers :: "database \<Rightarrow> user list" where
  "getAllUsers d = orderBy_desc createdAt_user (users d)"

definition apply_partial_user :: "partial_user \<Rightarrow> timestamp \<Rightarrow> user \<Rightarrow> user" where
  "apply_partial_user userUpdate now u =
     \<lparr> id_user = set_col (set_id_user userUpdate) (id_user u),
       username = set_col (set_username userUpdate) (username u),
       email_user = set_col (set_email_user userUpdate) (email_user u),
       password = set_col (set_password userUpdate) (password u),
       role = set_col (set_role userUpdate) (role u),
       banned = set_col (set_banned userUpdate) (banned u),
       createdAt_user = set_col (set_createdAt_user userUpdate) (createdAt_user u),
       updatedAt_user = Some now \<rparr>"

definition updateUser ::
  "database \<Rightarrow> timestamp \<Rightarrow> string \<Rightarrow> partial_user \<Rightarrow> storage_error + (database \<times> user option)" where
  "updateUser d now i userUpdate =
     commit
       (d\<lparr>users := map (\<lambda>u. if id_user u = i then apply_partial_user userUpdate now u else u)
                         (users d)\<rparr>)
       (first_row (map (apply_partial_user userUpdate now)
                       (filter (\<lambda>u. id_user u = i) (users d))))"

definition deleteUser :: "database \<Rightarrow> string \<Rightarrow> storage_error + (database \<times> bool)" where
  "deleteUser d i =
     (let rowCount = length (filter (\<lambda>u. id_user u = i) (users d))
      in commit (d\<lparr>users := filter (\<lambda>u. id_user u \<noteq> i) (users d)\<rparr>) (rowCount > 0))"

definition banUser :: "database \<Rightarrow> timestamp \<Rightarrow> string \<Rightarrow> storage_error + (database \<times> bool)" where
  "banUser d now i =
     (let rowCount = length (filter (\<lambda>u. id_user u = i) (users d))
      in commit
           (d\<lparr>users := map (\<lambda>u. if id_user u = i
                                   then u\<lparr>banned := Some True, updatedAt_user := Some now\<rparr>
                                   else u) (users d)\<rparr>)
           (rowCount > 0))"

definition unbanUser :: "database \<Rightarrow> timestamp \<Rightarrow> string \<Rightarrow> storage_error + (database \<times> bool)" where
  "unbanUser d now i =
     (let rowCount = length (filter (\<lambda>u. id_user u = i) (users d))
      in commit
           (d\<lparr>users := map (\<lambda>u. if id_user u = i
                                   then u\<lparr>banned := Some False, updatedAt_user := Some now\<rparr>
                                   else u) (users d)\<rparr>)
           (rowCount > 0))"

subsection \<open>Events\<close>

definition createEvent ::
  "database \<Rightarrow> string \<Rightarrow> timestamp \<Rightarrow> insert_event \<Rightarrow> storage_error + (database \<times> event)" where
  "createEvent d newId now insertEvent =
     (let event = \<lparr> id_event = newId,
                    userId = ins_userId insertEvent,
                    name_event = ins_name insertEvent,
                    description = or_default (ins_description insertEvent) None,
                    eventDate = or_default (ins_eventDate insertEvent) None,
                    eventTime = or_default (ins_eventTime insertEvent) None,
                    qrCodeUrl = None,
                    registrationUrl = Some (''/register/'' @ ins_userId insertEvent),
                    isActive = or_default (ins_isActive insertEvent) (Some True),
                    createdAt_event = Some now,
                    updatedAt_event = Some now \<rparr>
      in commit (d\<lparr>events := events d @ [event]\<rparr>) event)"

definition getEvent :: "database \<Rightarrow> string \<Rightarrow> event option" where
  "getEvent d i = first_row (filter (\<lambda>e. id_event e = i) (events d))"

definition getAllEvents :: "database \<Rightarrow> event list" where
  "getAllEvents d = orderBy_desc createdAt_event (events d)"

definition apply_partial_event :: "partial_event \<Rightarrow> timestamp \<Rightarrow> event \<Rightarrow> event" where
  "apply_partial_event eventUpdate now e =
     \<lparr> id_event = set_col (set_id_event eventUpdate) (id_event e),
       userId = set_col (set_userId eventUpdate) (userId e),
       name_event = set_col (set_name_event eventUpdate) (name_event e),
       description = set_col (set_description eventUpdate) (description e),
       eventDate = set_col (set_eventDate eventUpdate) (eventDate e),
       eventTime = set_col (set_eventTime eventUpdate) (eventTime e),
       qrCodeUrl = set_col (set_qrCodeUrl eventUpdate) (qrCodeUrl e),
       registrationUrl = set_col (set_registrationUrl eventUpdate) (registrationUrl e),
       isActive = set_col (set_isActive eventUpdate) (isActive e),
       createdAt_event = set_col (set_createdAt_event eventUpdate) (createdAt_event e),
       updatedAt_event = Some now \<rparr>"

definition updateEvent ::
  "database \<Rightarrow> timestamp \<Rightarrow> string \<Rightarrow> partial_event \<Rightarrow> storage_error + (database \<times> event option)" where
  "updateEvent d now i eventUpdate =
     commit
       (d\<lparr>events := map (\<lambda>e. if id_event e = i then apply_partial_event eventUpdate now e else e)
                          (events d)\<rparr>)
       (first_row (map (apply_partial_event eventUpdate now)
                       (filter (\<lambda>e. id_event e = i) (events d))))"

definition deleteEvent :: "database \<Rightarrow> string \<Rightarrow> storage_error + (database \<times> bool)" where
  "deleteEvent d i =
     (let rowCount = length (filter (\<lambda>e. id_event e = i) (events d))
      in commit (d\<lparr>events := filter (\<lambda>e. id_event e \<noteq> i) (events d)\<rparr>) (rowCount > 0))"

subsection \<open>QR settings, form schemas, registrations: the update operations\<close>

text \<open>
  A supplied \<open>qrSize\<close> is a parameter of the statement, of type \<open>integer\<close>: the store
  refuses a value out of range when it reads the parameters, whether or not a row has
  the id.
\<close>

definition apply_partial_qr :: "partial_qr_settings \<Rightarrow> timestamp \<Rightarrow> qr_settings \<Rightarrow> qr_settings" where
  "apply_partial_qr settingsUpdate now q =
     \<lparr> id_qr = set_col (set_id_qr settingsUpdate) (id_qr q),
       eventId_qr = set_col (set_eventId_qr settingsUpdate) (eventId_qr q),
       backgroundImage = set_col (set_backgroundImage settingsUpdate) (backgroundImage q),
       qrSize = set_col (set_qrSize settingsUpdate) (qrSize q),
       qrPosition = set_col (set_qrPosition settingsUpdate) (qrPosition q),
       textOverlays = set_col (set_textOverlays settingsUpdate) (textOverlays q),
       customFields = set_col (set_customFields settingsUpdate) (customFields q),
       createdAt_qr = set_col (set_createdAt_qr settingsUpdate) (createdAt_qr q),
       updatedAt_qr = Some now \<rparr>"

definition qrSize_in_range :: "partial_qr_settings \<Rightarrow> bool" where
  "qrSize_in_range settingsUpdate =
     (case set_qrSize settingsUpdate of None \<Rightarrow> True | Some v \<Rightarrow> int4 v)"

definition updateQrSettings ::
  "database \<Rightarrow> timestamp \<Rightarrow> string \<Rightarrow> partial_qr_settings
     \<Rightarrow> storage_error + (database \<times> qr_settings option)" where
  "updateQrSettings d now i settingsUpdate =
     (if \<not> qrSize_in_range settingsUpdate then Inl NumericValueOutOfRange
      else commit
        (d\<lparr>qrSettings := map (\<lambda>q. if id_qr q = i then apply_partial_qr settingsUpdate now q else q)
                               (qrSettings d)\<rparr>)
        (first_row (map (apply_partial_qr settingsUpdate now)
                        (filter (\<lambda>q. id_qr q = i) (qrSettings d)))))"

definition apply_partial_fs :: "partial_form_schema \<Rightarrow> timestamp \<Rightarrow> form_schema \<Rightarrow> form_schema" where
  "apply_partial_fs schemaUpdate now f =
     \<lparr> id_fs = set_col (set_id_fs schemaUpdate) (id_fs f),
       eventId_fs = set_col (set_eventId_fs schemaUpdate) (eventId_fs f),
       schema_fs = set_col (set_schema_fs schemaUpdate) (schema_fs f),
       layout = set_col (set_layout schemaUpdate) (layout f),
       responsiveSettings = set_col (set_responsiveSettings schemaUpdate) (responsiveSettings f),
       createdAt_fs = set_col (set_createdAt_fs schemaUpdate) (createdAt_fs f),
       updatedAt_fs = Some now \<rparr>"

definition updateFormSchema ::
  "database \<Rightarrow> timestamp \<Rightarrow> string \<Rightarrow> partial_form_schema
     \<Rightarrow> storage_error + (database \<times> form_schema option)" where
  "updateFormSchema d now i schemaUpdate =
     commit
       (d\<lparr>formSchemas := map (\<lambda>f. if id_fs f = i then apply_partial_fs schemaUpdate now f else f)
                               (formSchemas d)\<rparr>)
       (first_row (map (apply_partial_fs schemaUpdate now)
                       (filter (\<lambda>f. id_fs f = i) (formSchemas d))))"

definition getRegistration :: "database \<Rightarrow> string \<Rightarrow> registration option" where
  "getRegistration d i = first_row (filter (\<lambda>r. id_reg r = i) (registrations d))"

text \<open>
  \<open>updateRegistration\<close> passes the partial record to \<open>.set\<close> as it is: the table has no
  \<open>updatedAt\<close> column. With no key supplied there is nothing to set and the query
  builder throws.
\<close>

definition apply_partial_reg :: "partial_registration \<Rightarrow> registration \<Rightarrow> registration" where
  "apply_partial_reg registrationUpdate r =
     \<lparr> id_reg = set_col (set_id_reg registrationUpdate) (id_reg r),
       eventId_reg = set_col (set_eventId_reg registrationUpdate) (eventId_reg r),
       name_reg = set_col (set_name_reg registrationUpdate) (name_reg r),
       phone = set_col (set_phone registrationUpdate) (phone r),
       position = set_col (set_position registrationUpdate) (position r),
       email_reg = set_col (set_email_reg registrationUpdate) (email_reg r),
       customData = set_col (set_customData registrationUpdate) (customData r),
       registeredAt = set_col (set_registeredAt registrationUpdate) (registeredAt r) \<rparr>"

definition no_values :: "partial_registration \<Rightarrow> bool" where
  "no_values p \<longleftrightarrow>
     set_id_reg p = None \<and> set_eventId_reg p = None \<and> set_name_reg p = None \<and>
     set_phone p = None \<and> set_position p = None \<and> set_email_reg p = None \<and>
     set_customData p = None \<and> set_registeredAt p = None"

definition updateRegistration ::
  "database \<Rightarrow> string \<Rightarrow> partial_registration \<Rightarrow> storage_error + (database \<times> registration option)" where
  "updateRegistration d i registrationUpdate =
     (if no_values registrationUpdate then Inl NoValuesToSet
      else commit
        (d\<lparr>registrations := map (\<lambda>r. if id_reg r = i then apply_partial_reg registrationUpdate r else r)
                                  (registrations d)\<rparr>)
        (first_row (map (apply_partial_reg registrationUpdate)
                        (filter (\<lambda>r. id_reg r = i) (registrations d)))))"

section \<open>Requests, responses and sessions\<close>

text \<open>
  A request carries the session id of its \<open>connect.sid\<close> cookie (if any), the route
  parameter \<open>req.params.id\<close>, the parsed query string and the parsed JSON body. The server state is the database
  together with the session store, which maps a session id to the user id that
  \<open>passport.serializeUser\<close> stored in that session.
\<close>

datatype payload = Json json | Text string | NoBody

record response =
  status :: nat
  sent :: payload

record request =
  cookie :: "string option"
  params_id :: string
  query :: json
  body :: json

record state =
  db :: database
  sessions :: "string \<rightharpoonup> string"

text \<open>
  What a middleware or handler does with a request: it sends a response, calls
  \<open>next()\<close>, or calls \<open>next(err)\<close>.
\<close>

datatype outcome = Respond response | Next | NextErr js_error

definition reply :: "nat \<Rightarrow> payload \<Rightarrow> outcome" where
  "reply code p = Respond \<lparr> status = code, sent = p \<rparr>"

definition message :: "string \<Rightarrow> payload" where
  "message m = Json (JObj [(''message'', JStr m)])"

fun json_opt :: "('a \<Rightarrow> json) \<Rightarrow> 'a option \<Rightarrow> json" where
  "json_opt f None = JNull"
| "json_opt f (Some v) = f v"

text \<open>A \<open>Date\<close> in a JSON response; the model keeps the number of the timestamp.\<close>

definition json_time :: "timestamp \<Rightarrow> json" where
  "json_time t = JNum (int t)"

text \<open>
  The object literal \<open>{ id, username, email, role, banned, createdAt }\<close> that the
  register, login, current-user and list-users handlers each build from a user row.
\<close>

definition user_view :: "user \<Rightarrow> json" where
  "user_view user =
     JObj [ (''id'', JStr (id_user user)),
            (''username'', JStr (username user)),
            (''email'', JStr (email_user user)),
            (''role'', JStr (role user)),
            (''banned'', json_opt JBool (banned user)),
            (''createdAt'', json_opt json_time (createdAt_user user)) ]"

text \<open>\<open>res.json(event)\<close>: the whole row.\<close>

definition event_json :: "event \<Rightarrow> json" where
  "event_json e =
     JObj [ (''id'', JStr (id_event e)),
            (''userId'', JStr (userId e)),
            (''name'', JStr (name_event e)),
            (''description'', json_opt JStr (description e)),
            (''eventDate'', json_opt JStr (eventDate e)),
            (''eventTime'', json_opt JStr (eventTime e)),
            (''qrCodeUrl'', json_opt JStr (qrCodeUrl e)),
            (''registrationUrl'', json_opt JStr (registrationUrl e)),
            (''isActive'', json_opt JBool (isActive e)),
            (''createdAt'', json_opt json_time (createdAt_event e)),
            (''updatedAt'', json_opt json_time (updatedAt_event e)) ]"

text \<open>Reading a key of the body; in a JSON text with a repeated key the last one counts.\<close>

fun field :: "json \<Rightarrow> string \<Rightarrow> json option" where
  "field (JObj kvs) k = map_of (rev kvs) k"
| "field _ k = None"

subsection \<open>Sessions (express-session with passport)\<close>

text \<open>
  \<open>app.use(passport.session())\<close> runs before every route. For a request whose session
  is bound to a user id it calls \<open>deserializeUser\<close>, which looks the row up with
  \<open>getUser\<close>: the row becomes \<open>req.user\<close>; when there is no row any more,
  \<open>deserializeUser\<close> passes \<open>undefined\<close> on, passport raises an error and the request
  ends in \<open>next(err)\<close> before any route. A request without a bound session goes on
  without a user.
\<close>

definition passport_session :: "state \<Rightarrow> request \<Rightarrow> js_error + user option" where
  "passport_session st req =
     (case cookie req of
        None \<Rightarrow> Inr None
      | Some sid \<Rightarrow>
          (case sessions st sid of
             None \<Rightarrow> Inr None
           | Some uid \<Rightarrow>
               (case getUser (db st) uid of
                  None \<Rightarrow> Inl (Error ''Failed to deserialize user out of session'')
                | Some user \<Rightarrow> Inr (Some user))))"

text \<open>
  \<open>req.user\<close> inside a route, that is, after \<open>passport.session()\<close> has let the request
  through; \<open>req.isAuthenticated()\<close> holds exactly when it is set, so the test
  \<open>!req.isAuthenticated()\<close> is the case \<open>None\<close> of \<open>req_user\<close>.
\<close>

definition req_user :: "state \<Rightarrow> request \<Rightarrow> user option" where
  "req_user st req =
     (case passport_session st req of
        Inl err \<Rightarrow> None
      | Inr who \<Rightarrow> who)"

text \<open>
  \<open>req.session.regenerate\<close> destroys the stored session of the request and starts a new
  one; \<open>req.logout\<close> removes the user from the session and regenerates it. In both
  cases the old session id is bound to no user afterwards.
\<close>

definition regenerate :: "state \<Rightarrow> request \<Rightarrow> state" where
  "regenerate st req =
     (case cookie req of
        None \<Rightarrow> st
      | Some sid \<Rightarrow> st\<lparr>sessions := (sessions st)(sid := None)\<rparr>)"

definition logout :: "state \<Rightarrow> request \<Rightarrow> state" where
  "logout st req = regenerate st req"

text \<open>
  \<open>req.session.regenerate(() => req.login(user, ...))\<close>: the new session, with the id
  \<open>newSid\<close> that the session middleware generates, is bound to the user.
\<close>

definition regenerate_login :: "state \<Rightarrow> request \<Rightarrow> string \<Rightarrow> user \<Rightarrow> state" where
  "regenerate_login st req newSid user =
     (let st' = regenerate st req
      in st'\<lparr>sessions := (sessions st')(newSid \<mapsto> id_user user)\<rparr>)"

section \<open>Authorization middleware (server/auth.ts: requireAuth, requireAdmin)\<close>

definition requireAuth :: "state \<Rightarrow> request \<Rightarrow> outcome \<times> state" where
  "requireAuth st req =
     (case req_user st req of
        None \<Rightarrow> (reply 401 (message ''Authentication required''), st)
      | Some user \<Rightarrow>
          if banned user = Some True
          then (reply 403 (message ''Access denied''), logout st req)
          else (Next, st))"

definition requireAdmin :: "state \<Rightarrow> request \<Rightarrow> outcome \<times> state" where
  "requireAdmin st req =
     (case req_user st req of
        None \<Rightarrow> (reply 401 (message ''Authentication required''), st)
      | Some user \<Rightarrow>
          if banned user = Some True
          then (reply 403 (message ''Access denied''), logout st req)
          else if role user \<noteq> ''admin''
          then (reply 403 (message ''Admin access required''), st)
          else (Next, st))"

text \<open>\<open>app.METHOD(path, middleware, handler)\<close>: the handler runs only after \<open>next()\<close>.\<close>

definition guarded ::
  "(state \<Rightarrow> request \<Rightarrow> outcome \<times> state) \<Rightarrow> (state \<Rightarrow> request \<Rightarrow> outcome \<times> state)
     \<Rightarrow> state \<Rightarrow> request \<Rightarrow> outcome \<times> state" where
  "guarded middleware handler st req =
     (case middleware st req of
        (Next, st') \<Rightarrow> handler st' req
      | (out, st') \<Rightarrow> (out, st'))"

section \<open>Validation schemas (shared/schema.ts, zod)\<close>

text \<open>
  A zod object schema checks each declared key and strips every other key of the input.
  A failed parse throws a \<open>ZodError\<close>; the model keeps the names of the keys that
  failed (the empty name when the input is not an object).
\<close>

datatype 'a zres = Invalid | Valid 'a

fun z_string :: "nat \<Rightarrow> nat option \<Rightarrow> json \<Rightarrow> string zres" where
  "z_string lo hi (JStr s) =
     (if lo \<le> length s \<and> (case hi of None \<Rightarrow> True | Some h \<Rightarrow> length s \<le> h)
      then Valid s else Invalid)"
| "z_string lo hi _ = Invalid"

fun z_boolean :: "json \<Rightarrow> bool zres" where
  "z_boolean (JBool b) = Valid b"
| "z_boolean _ = Invalid"

fun z_nullable :: "(json \<Rightarrow> 'a zres) \<Rightarrow> json \<Rightarrow> 'a option zres" where
  "z_nullable p JNull = Valid None"
| "z_nullable p j = (case p j of Invalid \<Rightarrow> Invalid | Valid v \<Rightarrow> Valid (Some v))"

fun z_required :: "(json \<Rightarrow> 'a zres) \<Rightarrow> json option \<Rightarrow> 'a zres" where
  "z_required p None = Invalid"
| "z_required p (Some j) = p j"

fun z_optional :: "(json \<Rightarrow> 'a zres) \<Rightarrow> json option \<Rightarrow> 'a option zres" where
  "z_optional p None = Valid None"
| "z_optional p (Some j) = (case p j of Invalid \<Rightarrow> Invalid | Valid v \<Rightarrow> Valid (Some v))"

fun issue :: "string \<Rightarrow> 'a zres \<Rightarrow> string list" where
  "issue k Invalid = [k]"
| "issue k (Valid _) = []"

definition zod_error :: "string \<Rightarrow> string list \<Rightarrow> payload" where
  "zod_error m issues = Json (JObj [(''message'', JStr m), (''errors'', JArr (map JStr issues))])"

text \<open>
  \<open>registrationSchema\<close>: the insert schema of \<open>users\<close> without \<open>id\<close>, \<open>role\<close>,
  \<open>banned\<close>, \<open>createdAt\<close>, \<open>updatedAt\<close>; the two \<open>varchar(255)\<close> columns are strings of
  at most 255 characters, the password a string of at least 6.
\<close>

record registration_data =
  rd_username :: string
  rd_email :: string
  rd_password :: string

definition registrationSchema :: "json \<Rightarrow> string list + registration_data" where
  "registrationSchema b =
     (case b of
        JObj _ \<Rightarrow>
          (let u = z_required (z_string 0 (Some 255)) (field b ''username'');
               e = z_required (z_string 0 (Some 255)) (field b ''email'');
               p = z_required (z_string 6 None) (field b ''password'');
               issues = issue ''username'' u @ issue ''email'' e @ issue ''password'' p
           in case u of Invalid \<Rightarrow> Inl issues | Valid uv \<Rightarrow>
              (case e of Invalid \<Rightarrow> Inl issues | Valid ev \<Rightarrow>
              (case p of Invalid \<Rightarrow> Inl issues | Valid pv \<Rightarrow>
                 Inr \<lparr> rd_username = uv, rd_email = ev, rd_password = pv \<rparr>)))
      | _ \<Rightarrow> Inl [[]])"

text \<open>
  \<open>insertEventSchema\<close>: the insert schema of \<open>events\<close> without \<open>id\<close>, \<open>qrCodeUrl\<close>,
  \<open>registrationUrl\<close>, \<open>createdAt\<close>, \<open>updatedAt\<close>.
\<close>

definition insertEventSchema :: "json \<Rightarrow> string list + insert_event" where
  "insertEventSchema b =
     (case b of
        JObj _ \<Rightarrow>
          (let u = z_required (z_string 0 None) (field b ''userId'');
               n = z_required (z_string 0 None) (field b ''name'');
               d = z_optional (z_nullable (z_string 0 None)) (field b ''description'');
               ed = z_optional (z_nullable (z_string 0 None)) (field b ''eventDate'');
               et = z_optional (z_nullable (z_string 0 None)) (field b ''eventTime'');
               a = z_optional (z_nullable z_boolean) (field b ''isActive'');
               issues = issue ''userId'' u @ issue ''name'' n @ issue ''description'' d @
                        issue ''eventDate'' ed @ issue ''eventTime'' et @ issue ''isActive'' a
           in case u of Invalid \<Rightarrow> Inl issues | Valid uv \<Rightarrow>
              (case n of Invalid \<Rightarrow> Inl issues | Valid nv \<Rightarrow>
              (case d of Invalid \<Rightarrow> Inl issues | Valid dv \<Rightarrow>
              (case ed of Invalid \<Rightarrow> Inl issues | Valid edv \<Rightarrow>
              (case et of Invalid \<Rightarrow> Inl issues | Valid etv \<Rightarrow>
              (case a of Invalid \<Rightarrow> Inl issues | Valid av \<Rightarrow>
                 Inr \<lparr> ins_userId = uv, ins_name = nv, ins_description = dv,
                       ins_eventDate = edv, ins_eventTime = etv, ins_isActive = av \<rparr>))))))
      | _ \<Rightarrow> Inl [[]])"

text \<open>\<open>insertEventSchema.partial()\<close>: the same keys, all optional.\<close>

definition insertEventSchema_partial :: "json \<Rightarrow> string list + partial_event" where
  "insertEventSchema_partial b =
     (case b of
        JObj _ \<Rightarrow>
          (let u = z_optional (z_string 0 None) (field b ''userId'');
               n = z_optional (z_string 0 None) (field b ''name'');
               d = z_optional (z_nullable (z_string 0 None)) (field b ''description'');
               ed = z_optional (z_nullable (z_string 0 None)) (field b ''eventDate'');
               et = z_optional (z_nullable (z_string 0 None)) (field b ''eventTime'');
               a = z_optional (z_nullable z_boolean) (field b ''isActive'');
               issues = issue ''userId'' u @ issue ''name'' n @ issue ''description'' d @
                        issue ''eventDate'' ed @ issue ''eventTime'' et @ issue ''isActive'' a
           in case u of Invalid \<Rightarrow> Inl issues | Valid uv \<Rightarrow>
              (case n of Invalid \<Rightarrow> Inl issues | Valid nv \<Rightarrow>
              (case d of Invalid \<Rightarrow> Inl issues | Valid dv \<Rightarrow>
              (case ed of Invalid \<Rightarrow> Inl issues | Valid edv \<Rightarrow>
              (case et of Invalid \<Rightarrow> Inl issues | Valid etv \<Rightarrow>
              (case a of Invalid \<Rightarrow> Inl issues | Valid av \<Rightarrow>
                 Inr \<lparr> set_id_event = None, set_userId = uv, set_name_event = nv,
                       set_description = dv, set_eventDate = edv, set_eventTime = etv,
                       set_qrCodeUrl = None, set_registrationUrl = None, set_isActive = av,
                       set_createdAt_event = None, set_updatedAt_event = None \<rparr>))))))
      | _ \<Rightarrow> Inl [[]])"

section \<open>Authentication service (server/auth.ts: setupAuth)\<close>

text \<open>
  The values a request draws from its environment: the key derivation function, the
  clock, the row id the store generates, the id of a regenerated session, the bytes
  of \<open>randomBytes(16)\<close>, and the text that the database driver sends for a query
  parameter that is a number or a boolean (such as \<open>5\<close> for the number 5).
\<close>

record env =
  env_scrypt :: kdf
  env_now :: timestamp
  env_newId :: string
  env_newSid :: string
  env_rnd :: buffer
  env_param_text :: "json \<Rightarrow> string"

subsection \<open>The LocalStrategy verify callback\<close>

text \<open>
  The callback is typed \<open>(username: string, password: string)\<close>, but passport-local
  hands it whatever values it found in the request (see below), so both are JSON values
  here. \<open>getUserByUsername\<close> sends the user name as a query parameter: a string as it
  is, another value as the driver writes it. \<open>comparePasswords\<close> hands the password to
  \<open>scrypt\<close>, which throws a TypeError for a value that is not a string, whatever the
  stored credential.
\<close>

datatype verify_result = Done_error js_error | Done_false string | Done_user user

definition param_text :: "(json \<Rightarrow> string) \<Rightarrow> json \<Rightarrow> string" where
  "param_text driver v = (case v of JStr s \<Rightarrow> s | _ \<Rightarrow> driver v)"

definition comparePasswords_value :: "kdf \<Rightarrow> json \<Rightarrow> string \<Rightarrow> js_error + bool" where
  "comparePasswords_value scrypt supplied stored =
     (case supplied of
        JStr s \<Rightarrow> comparePasswords scrypt s stored
      | _ \<Rightarrow> Inl TypeError)"

definition verify ::
  "kdf \<Rightarrow> (json \<Rightarrow> string) \<Rightarrow> database \<Rightarrow> json \<Rightarrow> json \<Rightarrow> verify_result" where
  "verify scrypt driver d uname pw =
     (case getUserByUsername d (param_text driver uname) of
        None \<Rightarrow> Done_false ''Invalid credentials''
      | Some user \<Rightarrow>
          if banned user = Some True then Done_false ''Invalid credentials''
          else (case comparePasswords_value scrypt pw (password user) of
                  Inl err \<Rightarrow> Done_error err
                | Inr ok \<Rightarrow>
                    if \<not> ok then Done_false ''Invalid credentials''
                    else Done_user user))"

subsection \<open>POST /api/register\<close>

definition register :: "env \<Rightarrow> state \<Rightarrow> request \<Rightarrow> outcome \<times> state" where
  "register ev st req =
     (case registrationSchema (body req) of
        Inl issues \<Rightarrow> (reply 400 (zod_error ''Invalid user data'' issues), st)
      | Inr userData \<Rightarrow>
          if getUserByUsername (db st) (rd_username userData) \<noteq> None
          then (reply 400 (message ''Username already exists''), st)
          else if getUserByEmail (db st) (rd_email userData) \<noteq> None
          then (reply 400 (message ''Email already exists''), st)
          else
            (case createUser (db st) (env_newId ev) (env_now ev)
                    \<lparr> ins_username = rd_username userData,
                      ins_email = rd_email userData,
                      ins_password = hashPassword (env_scrypt ev) (env_rnd ev) (rd_password userData),
                      ins_role = Some ''user'',
                      ins_banned = Some (Some False) \<rparr> of
               Inl err \<Rightarrow> (reply 500 (message ''Failed to create user''), st)
             | Inr (d', user) \<Rightarrow>
                 (reply 201 (Json (user_view user)),
                  regenerate_login (st\<lparr>db := d'\<rparr>) req (env_newSid ev) user)))"

subsection \<open>POST /api/login\<close>

text \<open>
  \<open>passport.authenticate("local", callback)\<close>. passport-local reads each of
  \<open>username\<close> and \<open>password\<close> with \<open>lookup(req.body, name) || lookup(req.query,
  name)\<close>, where \<open>lookup\<close> yields the value of the key when it is a string, a number
  or a boolean and \<open>null\<close> otherwise. When one of the two is falsy it fails with
  \<open>Missing credentials\<close>; otherwise it calls the verify callback with the two values.
  The callback of the login route answers every failure with the same response and
  passes an error to \<open>next\<close>.
\<close>

fun truthy :: "json \<Rightarrow> bool" where
  "truthy JNull = False"
| "truthy (JBool b) = b"
| "truthy (JNum n) = (n \<noteq> 0)"
| "truthy (JStr s) = (s \<noteq> [])"
| "truthy (JArr xs) = True"
| "truthy (JObj kvs) = True"

definition lookup :: "json \<Rightarrow> string \<Rightarrow> json" where
  "lookup obj k =
     (case field obj k of
        Some (JStr s) \<Rightarrow> JStr s
      | Some (JNum n) \<Rightarrow> JNum n
      | Some (JBool b) \<Rightarrow> JBool b
      | _ \<Rightarrow> JNull)"

definition js_or :: "json \<Rightarrow> json \<Rightarrow> json" where
  "js_or a b = (if truthy a then a else b)"

definition credentials :: "request \<Rightarrow> (json \<times> json) option" where
  "credentials req =
     (let uname = js_or (lookup (body req) ''username'') (lookup (query req) ''username'');
          pw = js_or (lookup (body req) ''password'') (lookup (query req) ''password'')
      in if truthy uname \<and> truthy pw then Some (uname, pw) else None)"

definition authenticate ::
  "kdf \<Rightarrow> (json \<Rightarrow> string) \<Rightarrow> database \<Rightarrow> request \<Rightarrow> verify_result" where
  "authenticate scrypt driver d req =
     (case credentials req of
        None \<Rightarrow> Done_false ''Missing credentials''
      | Some (uname, pw) \<Rightarrow> verify scrypt driver d uname pw)"

definition login :: "env \<Rightarrow> state \<Rightarrow> request \<Rightarrow> outcome \<times> state" where
  "login ev st req =
     (case authenticate (env_scrypt ev) (env_param_text ev) (db st) req of
        Done_error err \<Rightarrow> (NextErr err, st)
      | Done_false info \<Rightarrow> (reply 401 (message ''Invalid credentials''), st)
      | Done_user user \<Rightarrow>
          (reply 200 (Json (user_view user)),
           regenerate_login st req (env_newSid ev) user))"

subsection \<open>GET /api/user\<close>

definition get_user :: "state \<Rightarrow> request \<Rightarrow> outcome \<times> state" where
  "get_user st req =
     (case req_user st req of
        None \<Rightarrow> (reply 401 (Text ''Unauthorized''), st)
      | Some user \<Rightarrow> (reply 200 (Json (user_view user)), st))"

section \<open>Routes (server/routes.ts: registerRoutes)\<close>

subsection \<open>User management handlers\<close>

definition users_list_handler :: "state \<Rightarrow> request \<Rightarrow> outcome \<times> state" where
  "users_list_handler st req =
     (reply 200 (Json (JArr (map user_view (getAllUsers (db st))))), st)"

definition ban_handler :: "timestamp \<Rightarrow> state \<Rightarrow> request \<Rightarrow> outcome \<times> state" where
  "ban_handler now st req =
     (if map_option id_user (req_user st req) = Some (params_id req)
      then (reply 400 (message ''Cannot ban yourself''), st)
      else (case banUser (db st) now (params_id req) of
              Inl err \<Rightarrow> (reply 500 (message ''Failed to ban user''), st)
            | Inr (d', success) \<Rightarrow>
                if \<not> success then (reply 404 (message ''User not found''), st\<lparr>db := d'\<rparr>)
                else (reply 200 (message ''User banned successfully''), st\<lparr>db := d'\<rparr>)))"

definition unban_handler :: "timestamp \<Rightarrow> state \<Rightarrow> request \<Rightarrow> outcome \<times> state" where
  "unban_handler now st req =
     (case unbanUser (db st) now (params_id req) of
        Inl err \<Rightarrow> (reply 500 (message ''Failed to unban user''), st)
      | Inr (d', success) \<Rightarrow>
          if \<not> success then (reply 404 (message ''User not found''), st\<lparr>db := d'\<rparr>)
          else (reply 200 (message ''User unbanned successfully''), st\<lparr>db := d'\<rparr>))"

definition delete_user_handler :: "state \<Rightarrow> request \<Rightarrow> outcome \<times> state" where
  "delete_user_handler st req =
     (if map_option id_user (req_user st req) = Some (params_id req)
      then (reply 400 (message ''Cannot delete yourself''), st)
      else (case deleteUser (db st) (params_id req) of
              Inl err \<Rightarrow> (reply 500 (message ''Failed to delete user''), st)
            | Inr (d', success) \<Rightarrow>
                if \<not> success then (reply 404 (message ''User not found''), st\<lparr>db := d'\<rparr>)
                else (reply 204 NoBody, st\<lparr>db := d'\<rparr>)))"

subsection \<open>Event handlers\<close>

definition events_list_handler :: "state \<Rightarrow> request \<Rightarrow> outcome \<times> state" where
  "events_list_handler st req =
     (reply 200 (Json (JArr (map event_json (getAllEvents (db st))))), st)"

definition event_get_handler :: "state \<Rightarrow> request \<Rightarrow> outcome \<times> state" where
  "event_get_handler st req =
     (case getEvent (db st) (params_id req) of
        None \<Rightarrow> (reply 404 (message ''Event not found''), st)
      | Some event \<Rightarrow> (reply 200 (Json (event_json event)), st))"

definition event_create_handler :: "string \<Rightarrow> timestamp \<Rightarrow> state \<Rightarrow> request \<Rightarrow> outcome \<times> state" where
  "event_create_handler newId now st req =
     (case insertEventSchema (body req) of
        Inl issues \<Rightarrow> (reply 400 (zod_error ''Invalid event data'' issues), st)
      | Inr eventData \<Rightarrow>
          (case createEvent (db st) newId now eventData of
             Inl err \<Rightarrow> (reply 500 (message ''Failed to create event''), st)
           | Inr (d', event) \<Rightarrow> (reply 201 (Json (event_json event)), st\<lparr>db := d'\<rparr>)))"

definition event_update_handler :: "timestamp \<Rightarrow> state \<Rightarrow> request \<Rightarrow> outcome \<times> state" where
  "event_update_handler now st req =
     (case insertEventSchema_partial (body req) of
        Inl issues \<Rightarrow> (reply 400 (zod_error ''Invalid event data'' issues), st)
      | Inr eventData \<Rightarrow>
          (case updateEvent (db st) now (params_id req) eventData of
             Inl err \<Rightarrow> (reply 500 (message ''Failed to update event''), st)
           | Inr (d', None) \<Rightarrow> (reply 404 (message ''Event not found''), st\<lparr>db := d'\<rparr>)
           | Inr (d', Some event) \<Rightarrow> (reply 200 (Json (event_json event)), st\<lparr>db := d'\<rparr>)))"

definition event_delete_handler :: "state \<Rightarrow> request \<Rightarrow> outcome \<times> state" where
  "event_delete_handler st req =
     (case deleteEvent (db st) (params_id req) of
        Inl err \<Rightarrow> (reply 500 (message ''Failed to delete event''), st)
      | Inr (d', success) \<Rightarrow>
          if \<not> success then (reply 404 (message ''Event not found''), st\<lparr>db := d'\<rparr>)
          else (reply 204 NoBody, st\<lparr>db := d'\<rparr>))"

subsection \<open>The route table\<close>

text \<open>
  The routes of \<open>registerRoutes\<close> and \<open>setupAuth\<close> that the properties below are about,
  each with the middleware it is registered with.
\<close>

datatype route =
    POST_register
  | POST_login
  | GET_user
  | GET_users
  | PATCH_users_ban
  | PATCH_users_unban
  | DELETE_users
  | GET_events
  | GET_events_id
  | POST_events
  | PATCH_events_id
  | DELETE_events_id

fun route_handler :: "env \<Rightarrow> route \<Rightarrow> state \<Rightarrow> request \<Rightarrow> outcome \<times> state" where
  "route_handler ev POST_register = register ev"
| "route_handler ev POST_login = login ev"
| "route_handler ev GET_user = get_user"
| "route_handler ev GET_users = guarded requireAdmin users_list_handler"
| "route_handler ev PATCH_users_ban = guarded requireAdmin (ban_handler (env_now ev))"
| "route_handler ev PATCH_users_unban = guarded requireAdmin (unban_handler (env_now ev))"
| "route_handler ev DELETE_users = guarded requireAdmin delete_user_handler"
| "route_handler ev GET_events = events_list_handler"
| "route_handler ev GET_events_id = event_get_handler"
| "route_handler ev POST_events = event_create_handler (env_newId ev) (env_now ev)"
| "route_handler ev PATCH_events_id = event_update_handler (env_now ev)"
| "route_handler ev DELETE_events_id = event_delete_handler"

text \<open>
  The application: \<open>setupAuth\<close> installs the session middleware and
  \<open>passport.session()\<close> with \<open>app.use\<close> before any route is registered, so every
  request passes through them first.
\<close>

definition handle :: "env \<Rightarrow> route \<Rightarrow> state \<Rightarrow> request \<Rightarrow> outcome \<times> state" where
  "handle ev route st req =
     (case passport_session st req of
        Inl err \<Rightarrow> (NextErr err, st)
      | Inr who \<Rightarrow> route_handler ev route st req)"

text \<open>
  The error middleware of server/index.ts answers \<open>next(err)\<close> with the status
  \<open>err.status || err.statusCode || 500\<close>; the errors raised here carry neither property.
\<close>

definition error_status :: "js_error \<Rightarrow> nat" where
  "error_status err = 500"

section \<open>Sample inputs\<close>

text \<open>
  Concrete values on which the definitions above are evaluated. The sample key
  derivation function returns the requested number of bytes, each the length of the
  password plus the length of the salt.
\<close>

definition sample_kdf :: kdf where
  "sample_kdf pw salt keylen = replicate keylen (word_of_nat (length pw + length salt))"

text \<open>
  A store with three users (alice, the banned bob and the administrator root), one
  event with its QR settings, form schema and one registration, and a session for each
  user.
\<close>

definition alice :: user where
  "alice = \<lparr> id_user = ''u1'', username = ''alice'', email_user = ''alice@x.com'',
             password = hashPassword sample_kdf [1] ''secret1'', role = ''user'',
             banned = Some False, createdAt_user = Some 10, updatedAt_user = Some 10 \<rparr>"

definition bob :: user where
  "bob = \<lparr> id_user = ''u2'', username = ''bob'', email_user = ''bob@x.com'',
           password = hashPassword sample_kdf [2] ''hunter22'', role = ''user'',
           banned = Some True, createdAt_user = Some 11, updatedAt_user = Some 12 \<rparr>"

definition root :: user where
  "root = \<lparr> id_user = ''a1'', username = ''root'', email_user = ''root@x.com'',
            password = hashPassword sample_kdf [3] ''topsecret'', role = ''admin'',
            banned = Some False, createdAt_user = Some 5, updatedAt_user = Some 5 \<rparr>"

definition fair :: event where
  "fair = \<lparr> id_event = ''e1'', userId = ''u1'', name_event = ''Spring Fair'',
            description = None, eventDate = Some ''2025-05-01'', eventTime = None,
            qrCodeUrl = None, registrationUrl = Some ''/register/u1'', isActive = Some True,
            createdAt_event = Some 13, updatedAt_event = Some 13 \<rparr>"

definition poster :: qr_settings where
  "poster = \<lparr> id_qr = ''q1'', eventId_qr = ''e1'', backgroundImage = None,
              qrSize = Some 200, qrPosition = JObj [(''x'', JNum 0), (''y'', JNum 0)],
              textOverlays = JArr [], customFields = JObj [],
              createdAt_qr = Some 14, updatedAt_qr = Some 14 \<rparr>"

definition signup_form :: form_schema where
  "signup_form = \<lparr> id_fs = ''f1'', eventId_fs = ''e1'', schema_fs = JArr [],
                   layout = JObj [], responsiveSettings = JNull,
                   createdAt_fs = Some 15, updatedAt_fs = Some 15 \<rparr>"

definition walkin :: registration where
  "walkin = \<lparr> id_reg = ''r1'', eventId_reg = ''e1'', name_reg = ''Dan'',
              phone = ''555-0100'', position = None, email_reg = Some ''dan@x.com'',
              customData = JNull, registeredAt = Some 16 \<rparr>"

definition sample_db :: database where
  "sample_db = \<lparr> users = [alice, bob, root], events = [fair], qrSettings = [poster],
                 formSchemas = [signup_form], registrations = [walkin] \<rparr>"

definition sample_state :: state where
  "sample_state = \<lparr> db = sample_db,
                    sessions = [''s1'' \<mapsto> ''u1'', ''s2'' \<mapsto> ''u2'', ''s3'' \<mapsto> ''a1''] \<rparr>"

text \<open>The sample driver writes a number in decimal digits and a boolean as a word.\<close>

fun show_nat :: "nat \<Rightarrow> string" where
  "show_nat n = (if n < 10 then [char_of (48 + n)] else show_nat (n div 10) @ [char_of (48 + n mod 10)])"

definition sample_param_text :: "json \<Rightarrow> string" where
  "sample_param_text v =
     (case v of
        JNum n \<Rightarrow> (if n < 0 then ''-'' @ show_nat (nat (- n)) else show_nat (nat n))
      | JBool b \<Rightarrow> (if b then ''true'' else ''false'')
      | _ \<Rightarrow> [])"

definition sample_env :: env where
  "sample_env = \<lparr> env_scrypt = sample_kdf, env_now = 20, env_newId = ''n1'',
                  env_newSid = ''s9'', env_rnd = [4], env_param_text = sample_param_text \<rparr>"

text \<open>A registration body that also carries \<open>role\<close> and \<open>banned\<close>, and the row it creates.\<close>

definition escalation_request :: request where
  "escalation_request =
     \<lparr> cookie = None, params_id = [], query = JObj [],
       body = JObj [(''username'', JStr ''carol''), (''email'', JStr ''carol@x.com''),
                    (''password'', JStr ''secret3''), (''role'', JStr ''admin''),
                    (''banned'', JBool True)] \<rparr>"

definition carol :: user where
  "carol = \<lparr> id_user = ''n1'', username = ''carol'', email_user = ''carol@x.com'',
             password = hashPassword sample_kdf [4] ''secret3'', role = ''user'',
             banned = Some False, createdAt_user = Some 20, updatedAt_user = Some 20 \<rparr>"

definition login_request :: "string \<Rightarrow> string \<Rightarrow> request" where
  "login_request uname pw =
     \<lparr> cookie = None, params_id = [], query = JObj [],
       body = JObj [(''username'', JStr uname), (''password'', JStr pw)] \<rparr>"

text \<open>A login body whose password is the number 5.\<close>

definition numeric_password_request :: "string \<Rightarrow> request" where
  "numeric_password_request uname =
     \<lparr> cookie = None, params_id = [], query = JObj [],
       body = JObj [(''username'', JStr uname), (''password'', JNum 5)] \<rparr>"

definition session_request :: "string \<Rightarrow> string \<Rightarrow> request" where
  "session_request sid i =
     \<lparr> cookie = Some sid, params_id = i, query = JObj [], body = JObj [] \<rparr>"

text \<open>A request without a session, a store without rows that depend on the event, and a new event.\<close>

definition anonymous_request :: "string \<Rightarrow> json \<Rightarrow> request" where
  "anonymous_request i b = \<lparr> cookie = None, params_id = i, query = JObj [], body = b \<rparr>"

definition expo :: event where
  "expo = \<lparr> id_event = ''n1'', userId = ''u1'', name_event = ''Expo'',
            description = None, eventDate = None, eventTime = None,
            qrCodeUrl = None, registrationUrl = Some ''/register/u1'', isActive = Some True,
            createdAt_event = Some 20, updatedAt_event = Some 20 \<rparr>"

definition bare_db :: database where
  "bare_db = \<lparr> users = [alice, bob, root], events = [fair], qrSettings = [],
               formSchemas = [], registrations = [] \<rparr>"

text \<open>Partial records for the update operations.\<close>

definition email_change :: partial_user where
  "email_change = \<lparr> set_id_user = None, set_username = None,
                    set_email_user = Some ''alice@y.com'', set_password = None, set_role = None,
                    set_banned = None, set_createdAt_user = None, set_updatedAt_user = Some (Some 1) \<rparr>"

definition rename_registration :: partial_registration where
  "rename_registration = \<lparr> set_id_reg = None, set_eventId_reg = None,
                           set_name_reg = Some ''Dana'', set_phone = None, set_position = None,
                           set_email_reg = None, set_customData = None, set_registeredAt = None \<rparr>"

definition no_change_event :: partial_event where
  "no_change_event = \<lparr> set_id_event = None, set_userId = None, set_name_event = None,
                       set_description = None, set_eventDate = None, set_eventTime = None,
                       set_qrCodeUrl = None, set_registrationUrl = None, set_isActive = None,
                       set_createdAt_event = None, set_updatedAt_event = None \<rparr>"

text \<open>
  A store with a second event, owned by the administrator and without dependent rows,
  and with a session whose user has been deleted.
\<close>

definition gala :: event where
  "gala = \<lparr> id_event = ''e2'', userId = ''a1'', name_event = ''Gala'',
            description = Some ''Members only'', eventDate = None, eventTime = None,
            qrCodeUrl = None, registrationUrl = Some ''/register/a1'', isActive = Some True,
            createdAt_event = Some 17, updatedAt_event = Some 17 \<rparr>"

definition shared_db :: database where
  "shared_db = \<lparr> users = [alice, bob, root], events = [fair, gala], qrSettings = [poster],
                 formSchemas = [signup_form], registrations = [walkin] \<rparr>"

definition shared_state :: state where
  "shared_state = \<lparr> db = shared_db,
                    sessions = [''s1'' \<mapsto> ''u1'', ''s3'' \<mapsto> ''a1'', ''s7'' \<mapsto> ''u7''] \<rparr>"

text \<open>
  Partial records that supply a QR size, a form schema, and nothing at all.
\<close>

definition resize_poster :: "int \<Rightarrow> partial_qr_settings" where
  "resize_poster n = \<lparr> set_id_qr = None, set_eventId_qr = None, set_backgroundImage = None,
                        set_qrSize = Some (Some n), set_qrPosition = None,
                        set_textOverlays = None, set_customFields = None,
                        set_createdAt_qr = None, set_updatedAt_qr = None \<rparr>"

definition schema_change :: "json \<Rightarrow> partial_form_schema" where
  "schema_change v = \<lparr> set_id_fs = None, set_eventId_fs = None, set_schema_fs = Some v,
                        set_layout = None, set_responsiveSettings = None,
                        set_createdAt_fs = None, set_updatedAt_fs = None \<rparr>"

definition no_change_registration :: partial_registration where
  "no_change_registration = \<lparr> set_id_reg = None, set_eventId_reg = None, set_name_reg = None,
                              set_phone = None, set_position = None, set_email_reg = None,
                              set_customData = None, set_registeredAt = None \<rparr>"

section \<open>Properties of the credential hasher\<close>

lemma hexval_hexdigit: "n < 16 \<Longrightarrow> hexval (hexdigit n) = Some n"
  by (auto simp: hexval_def hexdigit_def Let_def)

lemma hexdigit_not_dot: "n < 16 \<Longrightarrow> hexdigit n \<noteq> CHR ''.''"
proof
  assume n: "n < 16" and eq: "hexdigit n = CHR ''.''"
  from eq have "hexval (hexdigit n) = hexval CHR ''.''" by simp
  with n show False by (simp add: hexval_hexdigit) (simp add: hexval_def)
qed

lemma byte_hi: "unat (b::byte) div 16 < 16"
proof -
  have "unat b < 256" using unsigned_less [of b] by simp
  then show ?thesis by simp
qed

text \<open>Decoding undoes encoding, and the encoding contains no delimiter.\<close>

lemma fromHex_toHex: "fromHex (toHex buf) = buf"
  by (induction buf) (simp_all add: toHex_def hexval_hexdigit byte_hi)

lemma toHex_no_dot: "CHR ''.'' \<notin> set (toHex buf)"
  by (induction buf)
     (auto simp: toHex_def byte_hi hexdigit_not_dot hexdigit_not_dot [THEN not_sym])

lemma toHex_inj: "toHex a = toHex b \<Longrightarrow> a = b"
  by (metis fromHex_toHex)

lemma split_str_append:
  "sep \<notin> set xs \<Longrightarrow> split_str sep (xs @ sep # ys) = xs # split_str sep ys"
  by (induction xs) auto

lemma split_str_none: "sep \<notin> set xs \<Longrightarrow> split_str sep xs = [xs]"
  by (induction xs) auto

lemma split_hash:
  "split_str CHR ''.'' (hashPassword scrypt rnd P) = [toHex (scrypt P (toHex rnd) 64), toHex rnd]"
  by (simp add: hashPassword_def Let_def split_str_append split_str_none toHex_no_dot)

text \<open>
  Against a credential made by \<open>hashPassword\<close>, the comparison is the comparison of the
  two derived keys.
\<close>

lemma compare_hash:
  "comparePasswords scrypt pw (hashPassword scrypt rnd P) =
     timingSafeEqual (scrypt P (toHex rnd) 64) (scrypt pw (toHex rnd) 64)"
  by (simp add: comparePasswords_def split_hash fromHex_toHex)

lemma compare_no_delimiter:
  "CHR ''.'' \<notin> set stored \<Longrightarrow> comparePasswords scrypt supplied stored = Inl TypeError"
  by (simp add: comparePasswords_def split_str_none)

lemma compare_with_delimiter:
  assumes "CHR ''.'' \<notin> set hashed" and "CHR ''.'' \<notin> set salt"
    and "rest = [] \<or> (\<exists>t. rest = CHR ''.'' # t)"
  shows "comparePasswords scrypt supplied (hashed @ ''.'' @ salt @ rest) =
           timingSafeEqual (fromHex hashed) (scrypt supplied salt 64)"
proof -
  from assms(3) have "\<exists>ps. split_str CHR ''.'' (salt @ rest) = salt # ps"
    using assms(2) by (auto simp: split_str_none split_str_append)
  then obtain ps where "split_str CHR ''.'' (salt @ rest) = salt # ps" ..
  with assms(1) have "split_str CHR ''.'' (hashed @ ''.'' @ salt @ rest) = hashed # salt # ps"
    by (simp add: split_str_append)
  then show ?thesis by (simp add: comparePasswords_def)
qed

text \<open>
  C5. For every password \<open>P\<close> and every draw \<open>r\<close> of the random salt bytes,
  \<open>comparePasswords P (hashPassword P)\<close> returns true. Two calls of \<open>hashPassword\<close> on
  the same password whose salt draws \<open>r1\<close> and \<open>r2\<close> differ give two different
  credential strings, and each of them verifies against \<open>P\<close>.
\<close>

theorem hash_then_compare:
  "comparePasswords scrypt P (hashPassword scrypt r P) = Inr True \<and>
   (r1 \<noteq> r2 \<longrightarrow>
      hashPassword scrypt r1 P \<noteq> hashPassword scrypt r2 P \<and>
      comparePasswords scrypt P (hashPassword scrypt r1 P) = Inr True \<and>
      comparePasswords scrypt P (hashPassword scrypt r2 P) = Inr True)"
proof -
  have verified: "comparePasswords scrypt P (hashPassword scrypt r' P) = Inr True" for r'
    by (simp add: compare_hash timingSafeEqual_def)
  have distinct_salts: "hashPassword scrypt r1 P \<noteq> hashPassword scrypt r2 P" if ne: "r1 \<noteq> r2"
  proof
    assume "hashPassword scrypt r1 P = hashPassword scrypt r2 P"
    then have "split_str CHR ''.'' (hashPassword scrypt r1 P) =
               split_str CHR ''.'' (hashPassword scrypt r2 P)"
      by simp
    then have "toHex r1 = toHex r2" by (simp add: split_hash)
    with ne show False by (auto dest: toHex_inj)
  qed
  from verified distinct_salts show ?thesis by blast
qed

theorem hash_then_compare_witness:
  "[1 :: byte] \<noteq> [2] \<and>
   hashPassword sample_kdf [1] ''secret1'' \<noteq> hashPassword sample_kdf [2] ''secret1'' \<and>
   comparePasswords sample_kdf ''secret1'' (hashPassword sample_kdf [1] ''secret1'') = Inr True \<and>
   comparePasswords sample_kdf ''secret1'' (hashPassword sample_kdf [2] ''secret1'') = Inr True"
  using hash_then_compare [of sample_kdf "''secret1''" "[1]" "[1]" "[2]"]
  by simp

text \<open>
  C7, as stated, fails: a credential without the delimiter makes \<open>comparePasswords\<close>
  throw a TypeError, and one whose key part does not decode to the length of the derived
  key makes it throw a RangeError; neither returns false.
\<close>

theorem compare_malformed_counterexample:
  "comparePasswords sample_kdf ''secret1'' ''0a1b2c'' = Inl TypeError \<and>
   comparePasswords sample_kdf ''secret1'' ''0a1b2c.00ff'' = Inl RangeError \<and>
   comparePasswords sample_kdf ''secret1'' ''xyz.00ff'' = Inl RangeError"
  by (simp add: comparePasswords_def timingSafeEqual_def hexval_def sample_kdf_def)

text \<open>
  C7, amended. With a key derivation that returns 64 bytes: a credential without the
  \<open>.\<close> delimiter makes the comparison throw a TypeError; a credential \<open>hashed.salt\<close>
  (whatever follows a second delimiter is ignored, and the salt need not be
  hexadecimal) makes it throw a RangeError when \<open>hashed\<close> does not decode to exactly 64
  bytes, and otherwise returns a boolean: true when the decoded key is the key derived
  from the supplied plaintext, false when it is not. A mismatch is never an exception.
\<close>

theorem compare_malformed_outcomes:
  assumes keylen: "\<And>pw s. length (scrypt pw s 64) = 64"
  shows "(CHR ''.'' \<notin> set stored \<longrightarrow>
            comparePasswords scrypt supplied stored = Inl TypeError) \<and>
         (CHR ''.'' \<notin> set hashed \<and> CHR ''.'' \<notin> set salt \<and>
          (rest = [] \<or> (\<exists>t. rest = CHR ''.'' # t)) \<longrightarrow>
            comparePasswords scrypt supplied (hashed @ ''.'' @ salt @ rest) =
              (if length (fromHex hashed) = 64
               then Inr (fromHex hashed = scrypt supplied salt 64)
               else Inl RangeError))"
proof (intro conjI impI)
  assume "CHR ''.'' \<notin> set stored"
  then show "comparePasswords scrypt supplied stored = Inl TypeError"
    by (rule compare_no_delimiter)
next
  assume "CHR ''.'' \<notin> set hashed \<and> CHR ''.'' \<notin> set salt \<and>
          (rest = [] \<or> (\<exists>t. rest = CHR ''.'' # t))"
  then have "comparePasswords scrypt supplied (hashed @ ''.'' @ salt @ rest) =
               timingSafeEqual (fromHex hashed) (scrypt supplied salt 64)"
    by (intro compare_with_delimiter) simp_all
  then show "comparePasswords scrypt supplied (hashed @ ''.'' @ salt @ rest) =
               (if length (fromHex hashed) = 64
                then Inr (fromHex hashed = scrypt supplied salt 64)
                else Inl RangeError)"
    by (simp add: timingSafeEqual_def keylen)
qed

theorem compare_malformed_outcomes_witness:
  "comparePasswords sample_kdf ''secret1'' ''0a1b2c'' = Inl TypeError \<and>
   comparePasswords sample_kdf ''secret1''
      (toHex (replicate 64 14) @ ''.'' @ ''not hex'' @ []) = Inr True \<and>
   comparePasswords sample_kdf ''secret2''
      (toHex (replicate 64 9) @ ''.'' @ ''00ff'' @ ''.more'') = Inr False \<and>
   comparePasswords sample_kdf ''secret2''
      (''0a1b2c'' @ ''.'' @ ''00ff'' @ []) = Inl RangeError"
  using compare_malformed_outcomes [of sample_kdf
          "''0a1b2c''" "''secret1''" "toHex (replicate 64 14)" "''not hex''" "[]"]
        compare_malformed_outcomes [of sample_kdf
          "''0a1b2c''" "''secret2''" "toHex (replicate 64 9)" "''00ff''" "''.more''"]
        compare_malformed_outcomes [of sample_kdf
          "''0a1b2c''" "''secret2''" "''0a1b2c''" "''00ff''" "[]"]
  by (simp add: toHex_no_dot fromHex_toHex sample_kdf_def hexval_def)

section \<open>Evaluation of the sample store\<close>

lemma sample_db_ok: "db_ok sample_db"
  by (simp add: db_ok_def sample_db_def alice_def bob_def root_def fair_def poster_def
        signup_form_def walkin_def)

lemma sample_getUserByUsername:
  "getUserByUsername sample_db ''mallory'' = None"
  "getUserByUsername sample_db ''alice'' = Some alice"
  "getUserByUsername sample_db ''bob'' = Some bob"
  by (simp_all add: getUserByUsername_def first_row_def sample_db_def alice_def bob_def root_def)

lemma sample_getUser:
  "getUser sample_db ''u1'' = Some alice"
  "getUser sample_db ''u2'' = Some bob"
  "getUser sample_db ''a1'' = Some root"
  by (simp_all add: getUser_def first_row_def sample_db_def alice_def bob_def root_def)

lemma sample_compare:
  "comparePasswords sample_kdf ''wrongpw1'' (hashPassword sample_kdf [1] ''secret1'') = Inr False"
  "comparePasswords sample_kdf ''secret1'' (hashPassword sample_kdf [1] ''secret1'') = Inr True"
  "comparePasswords sample_kdf ''hunter22'' (hashPassword sample_kdf [2] ''hunter22'') = Inr True"
  by (simp_all add: compare_hash timingSafeEqual_def sample_kdf_def)

lemma sample_register:
  "register sample_env sample_state escalation_request =
     (reply 201 (Json (user_view carol)),
      \<lparr> db = sample_db\<lparr>users := [alice, bob, root, carol]\<rparr>,
        sessions = [''s1'' \<mapsto> ''u1'', ''s2'' \<mapsto> ''u2'', ''s3'' \<mapsto> ''a1'', ''s9'' \<mapsto> ''n1''] \<rparr>)"
  by (simp add: register_def registrationSchema_def escalation_request_def sample_state_def
        sample_env_def getUserByUsername_def getUserByEmail_def first_row_def
        sample_db_def alice_def bob_def root_def fair_def poster_def signup_form_def walkin_def
        carol_def createUser_def commit_def db_ok_def regenerate_login_def regenerate_def Let_def)

section \<open>Properties of the authentication service\<close>

lemma createUser_result:
  "createUser d i t ins = Inr (d', u) \<Longrightarrow>
     users d' = users d @ [u] \<and> role u = or_default (ins_role ins) ''user'' \<and>
     banned u = or_default (ins_banned ins) (Some False)"
  by (auto simp: createUser_def commit_def Let_def split: if_splits)

lemma register_cases:
  assumes "register ev st req = (out, st')"
  shows "(st' = st \<and> (\<forall>p. out \<noteq> reply 201 p)) \<or>
         (\<exists>u. users (db st') = users (db st) @ [u] \<and> role u = ''user'' \<and>
              banned u = Some False \<and> out = reply 201 (Json (user_view u)))"
  using assms
  by (auto simp: register_def reply_def regenerate_login_def regenerate_def Let_def
           split: sum.splits if_splits option.splits dest!: createUser_result)

lemma registrationSchema_fields:
  assumes "b = JObj kvs" and "b' = JObj kvs'"
    and "field b ''username'' = field b' ''username''"
    and "field b ''email'' = field b' ''email''"
    and "field b ''password'' = field b' ''password''"
  shows "registrationSchema b = registrationSchema b'"
  using assms by (simp add: registrationSchema_def)

text \<open>
  C1. Whatever the body of a registration request holds, the request either creates no
  user (and does not answer 201), or appends exactly one user, whose role is \<open>user\<close>
  and whose banned flag is false, and answers 201 with that user's view. The outcome
  depends on the \<open>username\<close>, \<open>email\<close> and \<open>password\<close> keys of the body only: two
  bodies that agree on them, whatever \<open>role\<close>, \<open>banned\<close> or other keys they carry,
  give the same response and the same state.
\<close>

theorem register_forces_role_and_banned:
  "(register ev st req = (out, st') \<longrightarrow>
      (st' = st \<and> (\<forall>p. out \<noteq> reply 201 p)) \<or>
      (\<exists>u. users (db st') = users (db st) @ [u] \<and> role u = ''user'' \<and>
           banned u = Some False \<and> out = reply 201 (Json (user_view u)))) \<and>
   ((\<exists>kvs. b = JObj kvs) \<and> (\<exists>kvs. b' = JObj kvs) \<and>
    field b ''username'' = field b' ''username'' \<and>
    field b ''email'' = field b' ''email'' \<and>
    field b ''password'' = field b' ''password'' \<longrightarrow>
      register ev st (req\<lparr>body := b\<rparr>) = register ev st (req\<lparr>body := b'\<rparr>))"
proof (intro conjI impI)
  assume "register ev st req = (out, st')"
  then show "(st' = st \<and> (\<forall>p. out \<noteq> reply 201 p)) \<or>
      (\<exists>u. users (db st') = users (db st) @ [u] \<and> role u = ''user'' \<and>
           banned u = Some False \<and> out = reply 201 (Json (user_view u)))"
    by (rule register_cases)
next
  assume same: "(\<exists>kvs. b = JObj kvs) \<and> (\<exists>kvs. b' = JObj kvs) \<and>
    field b ''username'' = field b' ''username'' \<and>
    field b ''email'' = field b' ''email'' \<and>
    field b ''password'' = field b' ''password''"
  then have "registrationSchema b = registrationSchema b'"
    by (auto intro: registrationSchema_fields)
  then show "register ev st (req\<lparr>body := b\<rparr>) = register ev st (req\<lparr>body := b'\<rparr>)"
    by (simp add: register_def regenerate_login_def regenerate_def split: sum.splits prod.splits)
qed

theorem register_forces_role_and_banned_witness:
  "register sample_env sample_state escalation_request =
     (reply 201 (Json (user_view carol)),
      \<lparr> db = sample_db\<lparr>users := [alice, bob, root, carol]\<rparr>,
        sessions = [''s1'' \<mapsto> ''u1'', ''s2'' \<mapsto> ''u2'', ''s3'' \<mapsto> ''a1'', ''s9'' \<mapsto> ''n1''] \<rparr>) \<and>
   field (body escalation_request) ''role'' = Some (JStr ''admin'') \<and>
   field (body escalation_request) ''banned'' = Some (JBool True) \<and>
   role carol = ''user'' \<and> banned carol = Some False \<and>
   register sample_env sample_state
      (escalation_request\<lparr>body := JObj [(''username'', JStr ''carol''),
         (''email'', JStr ''carol@x.com''), (''password'', JStr ''secret3'')]\<rparr>) =
   register sample_env sample_state (escalation_request\<lparr>body := body escalation_request\<rparr>)"
  using register_forces_role_and_banned [where ev = sample_env and st = sample_state
          and req = escalation_request
          and out = "reply 201 (Json (user_view carol))"
          and st' = "\<lparr> db = sample_db\<lparr>users := [alice, bob, root, carol]\<rparr>,
              sessions = [''s1'' \<mapsto> ''u1'', ''s2'' \<mapsto> ''u2'', ''s3'' \<mapsto> ''a1'', ''s9'' \<mapsto> ''n1''] \<rparr>"
          and b = "JObj [(''username'', JStr ''carol''),
             (''email'', JStr ''carol@x.com''), (''password'', JStr ''secret3'')]"
          and b' = "body escalation_request"]
        sample_register
  by (simp add: escalation_request_def carol_def)

subsection \<open>Through the application\<close>

lemma req_user_eq:
  "req_user st req =
     (case cookie req of
        None \<Rightarrow> None
      | Some sid \<Rightarrow> (case sessions st sid of None \<Rightarrow> None | Some uid \<Rightarrow> getUser (db st) uid))"
  by (simp add: req_user_def passport_session_def split: option.splits)

lemma handle_pass:
  "passport_session st req = Inr who \<Longrightarrow> handle ev route st req = route_handler ev route st req"
  by (simp add: handle_def)

lemma handle_stale:
  "passport_session st req = Inl err \<Longrightarrow> handle ev route st req = (NextErr err, st)"
  by (simp add: handle_def)

lemma passport_session_anonymous: "cookie req = None \<Longrightarrow> passport_session st req = Inr None"
  by (simp add: passport_session_def)

lemma passport_session_user:
  "req_user st req = Some u \<Longrightarrow> passport_session st req = Inr (Some u)"
  by (simp add: req_user_def split: sum.splits)

lemma handle_Respond:
  "handle ev route st req = (Respond r, st') \<Longrightarrow> route_handler ev route st req = (Respond r, st')"
  by (simp add: handle_def split: sum.splits)

subsection \<open>Login\<close>

lemma first_row_filter:
  "first_row (filter P rows) = Some r \<Longrightarrow> P r \<and> r \<in> set rows"
  by (induction rows) (auto simp: first_row_def split: if_splits)

lemma getUserByUsername_Some:
  "getUserByUsername d n = Some u \<Longrightarrow> username u = n \<and> u \<in> set (users d)"
  unfolding getUserByUsername_def by (drule first_row_filter) simp

text \<open>
  With a password that is a string, the three failures of a login end in the same
  response, and so does a request without credentials.
\<close>

lemma login_failure_uniform_strings:
  assumes "credentials req = Some (uname, JStr pw)"
    and "(case getUserByUsername (db st) (param_text (env_param_text ev) uname) of
            None \<Rightarrow> True
          | Some user \<Rightarrow>
              banned user = Some True \<or>
              comparePasswords (env_scrypt ev) pw (password user) = Inr False)"
  shows "login ev st req = (reply 401 (message ''Invalid credentials''), st)"
  using assms
  by (auto simp: login_def authenticate_def verify_def comparePasswords_value_def
           split: option.splits)

lemma login_missing_credentials:
  "credentials req = None \<Longrightarrow> login ev st req = (reply 401 (message ''Invalid credentials''), st)"
  by (simp add: login_def authenticate_def)

text \<open>
  With a password that is not a string, the outcome tells an existing user who is not
  banned from every other case: the comparison throws, and the handler passes the error
  on instead of answering 401.
\<close>

lemma login_password_not_a_string:
  assumes "credentials req = Some (uname, pw)" and "\<And>s. pw \<noteq> JStr s"
  shows "login ev st req =
           (case getUserByUsername (db st) (param_text (env_param_text ev) uname) of
              None \<Rightarrow> (reply 401 (message ''Invalid credentials''), st)
            | Some user \<Rightarrow>
                if banned user = Some True
                then (reply 401 (message ''Invalid credentials''), st)
                else (NextErr TypeError, st))"
proof -
  have "comparePasswords_value (env_scrypt ev) pw stored = Inl TypeError" for stored
    using assms(2) by (cases pw) (auto simp: comparePasswords_value_def)
  with assms(1) show ?thesis
    by (simp add: login_def authenticate_def verify_def split: option.splits)
qed

lemma sample_numeric_credentials:
  "credentials (numeric_password_request uname) =
     (if uname = [] then None else Some (JStr uname, JNum 5))"
  by (simp add: credentials_def numeric_password_request_def lookup_def js_or_def Let_def)

text \<open>
  C2 says that every failing login is answered with the same 401. The login route does
  not check the types of the body (the register route does, with its schema): with the
  number 5 as the password, the request for the existing user alice ends in
  \<open>next(err)\<close> with the TypeError of \<open>scrypt\<close>, answered 500 by the error middleware,
  while the same request for an unknown name or for the banned bob is answered 401, as
  is alice's with a wrong password that is a string.
\<close>

theorem login_numeric_password_not_uniform:
  "handle sample_env POST_login sample_state (numeric_password_request ''alice'') =
     (NextErr TypeError, sample_state) \<and>
   error_status TypeError = 500 \<and>
   handle sample_env POST_login sample_state (numeric_password_request ''mallory'') =
     (reply 401 (message ''Invalid credentials''), sample_state) \<and>
   handle sample_env POST_login sample_state (numeric_password_request ''bob'') =
     (reply 401 (message ''Invalid credentials''), sample_state) \<and>
   handle sample_env POST_login sample_state (login_request ''alice'' ''wrongpw1'') =
     (reply 401 (message ''Invalid credentials''), sample_state)"
proof -
  have anonymous: "passport_session sample_state (numeric_password_request n) = Inr None"
    "passport_session sample_state (login_request n p) = Inr None" for n p
    by (simp_all add: passport_session_def numeric_password_request_def login_request_def)
  have numeric: "login sample_env sample_state (numeric_password_request n) =
      (case getUserByUsername sample_db n of
         None \<Rightarrow> (reply 401 (message ''Invalid credentials''), sample_state)
       | Some user \<Rightarrow>
           if banned user = Some True
           then (reply 401 (message ''Invalid credentials''), sample_state)
           else (NextErr TypeError, sample_state))" if "n \<noteq> []" for n
    using login_password_not_a_string [of "numeric_password_request n" "JStr n" "JNum 5"
        sample_env sample_state] that
    by (simp add: sample_numeric_credentials param_text_def) (simp add: sample_state_def)
  have wrong: "login sample_env sample_state (login_request ''alice'' ''wrongpw1'') =
      (reply 401 (message ''Invalid credentials''), sample_state)"
    by (rule login_failure_uniform_strings [where uname = "JStr ''alice''" and pw = "''wrongpw1''"])
       (simp_all add: credentials_def login_request_def lookup_def js_or_def Let_def
          param_text_def sample_state_def sample_env_def sample_getUserByUsername
          alice_def sample_compare)
  show ?thesis
    using numeric [of "''alice''"] numeric [of "''mallory''"] numeric [of "''bob''"] wrong
    by (simp add: handle_def anonymous sample_getUserByUsername error_status_def)
       (simp add: alice_def bob_def)
qed

subsection \<open>The user views that the routes send\<close>

lemma guarded_status:
  assumes "guarded requireAdmin h st req = (Respond r, st')" and "status r = 200"
  shows "h st req = (Respond r, st')"
  using assms
  by (auto simp: guarded_def requireAdmin_def reply_def split: option.splits if_splits)

lemma register_success:
  assumes "registrationSchema (body req) = Inr userData"
    and "getUserByUsername (db st) (rd_username userData) = None"
    and "getUserByEmail (db st) (rd_email userData) = None"
    and "new = \<lparr> id_user = env_newId ev, username = rd_username userData,
                   email_user = rd_email userData,
                   password = hashPassword (env_scrypt ev) (env_rnd ev) (rd_password userData),
                   role = ''user'', banned = Some False,
                   createdAt_user = Some (env_now ev), updatedAt_user = Some (env_now ev) \<rparr>"
    and "db_ok ((db st)\<lparr>users := users (db st) @ [new]\<rparr>)"
  shows "register ev st req =
           (reply 201 (Json (user_view new)),
            regenerate_login (st\<lparr>db := (db st)\<lparr>users := users (db st) @ [new]\<rparr>\<rparr>) req
              (env_newSid ev) new)"
  using assms by (simp add: register_def createUser_def commit_def Let_def)

lemma login_success:
  assumes "credentials req = Some (uname, JStr pw)"
    and "getUserByUsername (db st) (param_text (env_param_text ev) uname) = Some usr"
    and "banned usr \<noteq> Some True"
    and "comparePasswords (env_scrypt ev) pw (password usr) = Inr True"
  shows "login ev st req =
           (reply 200 (Json (user_view usr)), regenerate_login st req (env_newSid ev) usr)"
  using assms
  by (simp add: login_def authenticate_def verify_def comparePasswords_value_def)

lemma login_Respond_200:
  assumes "login ev st req = (Respond r, st')" and "status r = 200"
  shows "\<exists>usr. usr \<in> set (users (db st)) \<and> sent r = Json (user_view usr)"
  using assms
  by (auto simp: login_def authenticate_def verify_def reply_def
           split: verify_result.splits option.splits prod.splits if_splits sum.splits
           dest: getUserByUsername_Some)

lemma register_Respond_201:
  assumes "register ev st req = (Respond r, st')" and "status r = 201"
  shows "\<exists>new. users (db st') = users (db st) @ [new] \<and> sent r = Json (user_view new)"
proof -
  from register_cases [OF assms(1)]
  consider "\<forall>p. Respond r \<noteq> reply 201 p"
    | new where "users (db st') = users (db st) @ [new]" "Respond r = reply 201 (Json (user_view new))"
    by auto
  then show ?thesis
  proof cases
    case 1
    then have "Respond r \<noteq> reply 201 (sent r)" by blast
    with assms(2) show ?thesis by (cases r) (simp add: reply_def)
  next
    case 2
    then show ?thesis by (auto simp: reply_def)
  qed
qed

text \<open>
  C9. The view of a user is the object with the six keys \<open>id\<close>, \<open>username\<close>, \<open>email\<close>,
  \<open>role\<close>, \<open>banned\<close>, \<open>createdAt\<close>, each holding that column of the row; it does not
  depend on the row's password. A 201 of the register route sends the view of the row
  it appended, a 200 of the login route the view of a stored user, a 200 of the
  current-user route the view of the session's user, and a 200 of the list-users route
  the views of all stored users, newest first; nothing else is sent. Each of the four
  routes does answer so: a valid registration that the store accepts, a login with the
  right password of a user who is not banned, a request with a user's session, and an
  administrator's request for the list.
\<close>

theorem sanitized_user_views:
  "user_view u =
     JObj [ (''id'', JStr (id_user u)), (''username'', JStr (username u)),
            (''email'', JStr (email_user u)), (''role'', JStr (role u)),
            (''banned'', json_opt JBool (banned u)),
            (''createdAt'', json_opt json_time (createdAt_user u)) ] \<and>
   user_view (u\<lparr>password := h\<rparr>) = user_view u \<and>
   (handle ev POST_register st req = (Respond r, st') \<and> status r = 201 \<longrightarrow>
      (\<exists>new. users (db st') = users (db st) @ [new] \<and> sent r = Json (user_view new))) \<and>
   (handle ev POST_login st req = (Respond r, st') \<and> status r = 200 \<longrightarrow>
      (\<exists>usr. usr \<in> set (users (db st)) \<and> sent r = Json (user_view usr))) \<and>
   (handle ev GET_user st req = (Respond r, st') \<and> status r = 200 \<longrightarrow>
      (\<exists>usr. req_user st req = Some usr \<and> sent r = Json (user_view usr))) \<and>
   (handle ev GET_users st req = (Respond r, st') \<and> status r = 200 \<longrightarrow>
      sent r = Json (JArr (map user_view (getAllUsers (db st))))) \<and>
   (passport_session st req = Inr who \<and>
    registrationSchema (body req) = Inr userData \<and>
    getUserByUsername (db st) (rd_username userData) = None \<and>
    getUserByEmail (db st) (rd_email userData) = None \<and>
    new = \<lparr> id_user = env_newId ev, username = rd_username userData,
            email_user = rd_email userData,
            password = hashPassword (env_scrypt ev) (env_rnd ev) (rd_password userData),
            role = ''user'', banned = Some False,
            createdAt_user = Some (env_now ev), updatedAt_user = Some (env_now ev) \<rparr> \<and>
    db_ok ((db st)\<lparr>users := users (db st) @ [new]\<rparr>) \<longrightarrow>
      handle ev POST_register st req =
        (reply 201 (Json (user_view new)),
         regenerate_login (st\<lparr>db := (db st)\<lparr>users := users (db st) @ [new]\<rparr>\<rparr>) req
           (env_newSid ev) new)) \<and>
   (passport_session st req = Inr who \<and>
    credentials req = Some (uname, JStr pw) \<and>
    getUserByUsername (db st) (param_text (env_param_text ev) uname) = Some usr \<and>
    banned usr \<noteq> Some True \<and>
    comparePasswords (env_scrypt ev) pw (password usr) = Inr True \<longrightarrow>
      handle ev POST_login st req =
        (reply 200 (Json (user_view usr)), regenerate_login st req (env_newSid ev) usr)) \<and>
   (req_user st req = Some usr \<longrightarrow>
      handle ev GET_user st req = (reply 200 (Json (user_view usr)), st)) \<and>
   (req_user st req = Some usr \<and> banned usr \<noteq> Some True \<and> role usr = ''admin'' \<longrightarrow>
      handle ev GET_users st req =
        (reply 200 (Json (JArr (map user_view (getAllUsers (db st))))), st))"
proof (intro conjI impI)
  show "user_view u =
     JObj [ (''id'', JStr (id_user u)), (''username'', JStr (username u)),
            (''email'', JStr (email_user u)), (''role'', JStr (role u)),
            (''banned'', json_opt JBool (banned u)),
            (''createdAt'', json_opt json_time (createdAt_user u)) ]"
    by (simp add: user_view_def)
next
  show "user_view (u\<lparr>password := h\<rparr>) = user_view u"
    by (simp add: user_view_def)
next
  assume "handle ev POST_register st req = (Respond r, st') \<and> status r = 201"
  then have "register ev st req = (Respond r, st')" and "status r = 201"
    by (auto dest: handle_Respond)
  then show "\<exists>new. users (db st') = users (db st) @ [new] \<and> sent r = Json (user_view new)"
    by (rule register_Respond_201)
next
  assume "handle ev POST_login st req = (Respond r, st') \<and> status r = 200"
  then have "login ev st req = (Respond r, st')" and "status r = 200"
    by (auto dest: handle_Respond)
  then show "\<exists>usr. usr \<in> set (users (db st)) \<and> sent r = Json (user_view usr)"
    by (rule login_Respond_200)
next
  assume "handle ev GET_user st req = (Respond r, st') \<and> status r = 200"
  then have "get_user st req = (Respond r, st')" and "status r = 200"
    by (auto dest: handle_Respond)
  then show "\<exists>usr. req_user st req = Some usr \<and> sent r = Json (user_view usr)"
    by (auto simp: get_user_def reply_def split: option.splits)
next
  assume "handle ev GET_users st req = (Respond r, st') \<and> status r = 200"
  then have "guarded requireAdmin users_list_handler st req = (Respond r, st')"
    and "status r = 200"
    by (auto dest: handle_Respond)
  then have "users_list_handler st req = (Respond r, st')"
    by (rule guarded_status)
  then show "sent r = Json (JArr (map user_view (getAllUsers (db st))))"
    by (auto simp: users_list_handler_def reply_def)
next
  assume a: "passport_session st req = Inr who \<and>
    registrationSchema (body req) = Inr userData \<and>
    getUserByUsername (db st) (rd_username userData) = None \<and>
    getUserByEmail (db st) (rd_email userData) = None \<and>
    new = \<lparr> id_user = env_newId ev, username = rd_username userData,
            email_user = rd_email userData,
            password = hashPassword (env_scrypt ev) (env_rnd ev) (rd_password userData),
            role = ''user'', banned = Some False,
            createdAt_user = Some (env_now ev), updatedAt_user = Some (env_now ev) \<rparr> \<and>
    db_ok ((db st)\<lparr>users := users (db st) @ [new]\<rparr>)"
  then have "handle ev POST_register st req = register ev st req"
    by (simp add: handle_def)
  moreover from a have "register ev st req =
        (reply 201 (Json (user_view new)),
         regenerate_login (st\<lparr>db := (db st)\<lparr>users := users (db st) @ [new]\<rparr>\<rparr>) req
           (env_newSid ev) new)"
    by (elim conjE) (rule register_success; assumption)
  ultimately show "handle ev POST_register st req =
        (reply 201 (Json (user_view new)),
         regenerate_login (st\<lparr>db := (db st)\<lparr>users := users (db st) @ [new]\<rparr>\<rparr>) req
           (env_newSid ev) new)"
    by (rule trans)
next
  assume a: "passport_session st req = Inr who \<and>
    credentials req = Some (uname, JStr pw) \<and>
    getUserByUsername (db st) (param_text (env_param_text ev) uname) = Some usr \<and>
    banned usr \<noteq> Some True \<and>
    comparePasswords (env_scrypt ev) pw (password usr) = Inr True"
  then have "handle ev POST_login st req = login ev st req"
    by (simp add: handle_def)
  moreover from a have "login ev st req =
        (reply 200 (Json (user_view usr)), regenerate_login st req (env_newSid ev) usr)"
    by (elim conjE) (rule login_success; assumption)
  ultimately show "handle ev POST_login st req =
        (reply 200 (Json (user_view usr)), regenerate_login st req (env_newSid ev) usr)"
    by (rule trans)
next
  assume a: "req_user st req = Some usr"
  then have "handle ev GET_user st req = get_user st req"
    by (simp add: handle_def passport_session_user)
  with a show "handle ev GET_user st req = (reply 200 (Json (user_view usr)), st)"
    by (simp add: get_user_def)
next
  assume a: "req_user st req = Some usr \<and> banned usr \<noteq> Some True \<and> role usr = ''admin''"
  then have "handle ev GET_users st req = guarded requireAdmin users_list_handler st req"
    by (simp add: handle_def passport_session_user)
  with a show "handle ev GET_users st req =
        (reply 200 (Json (JArr (map user_view (getAllUsers (db st))))), st)"
    by (simp add: guarded_def requireAdmin_def users_list_handler_def)
qed

lemma sample_req_user:
  "req_user sample_state (session_request ''s1'' i) = Some alice"
  "req_user sample_state (session_request ''s2'' i) = Some bob"
  "req_user sample_state (session_request ''s3'' i) = Some root"
  by (simp_all add: req_user_eq session_request_def sample_state_def sample_getUser)

lemma sample_getAllUsers: "getAllUsers sample_db = [bob, alice, root]"
  by (simp add: getAllUsers_def orderBy_desc_def sample_db_def alice_def bob_def root_def)

lemma registrationSchema_escalation:
  "registrationSchema (body escalation_request) =
     Inr \<lparr> rd_username = ''carol'', rd_email = ''carol@x.com'', rd_password = ''secret3'' \<rparr>"
  by (simp add: registrationSchema_def escalation_request_def)

lemma sample_credentials:
  "credentials (login_request ''alice'' ''secret1'') = Some (JStr ''alice'', JStr ''secret1'')"
  by (simp add: credentials_def login_request_def lookup_def js_or_def Let_def)

theorem sanitized_user_views_witness:
  "handle sample_env POST_register sample_state escalation_request =
     (reply 201 (Json (user_view carol)),
      regenerate_login (sample_state\<lparr>db := sample_db\<lparr>users := [alice, bob, root, carol]\<rparr>\<rparr>)
        escalation_request ''s9'' carol) \<and>
   handle sample_env POST_login sample_state (login_request ''alice'' ''secret1'') =
     (reply 200 (Json (user_view alice)),
      regenerate_login sample_state (login_request ''alice'' ''secret1'') ''s9'' alice) \<and>
   handle sample_env GET_user sample_state (session_request ''s1'' []) =
     (reply 200 (Json (user_view alice)), sample_state) \<and>
   handle sample_env GET_users sample_state (session_request ''s3'' []) =
     (reply 200 (Json (JArr [user_view bob, user_view alice, user_view root])), sample_state) \<and>
   user_view alice =
     JObj [(''id'', JStr ''u1''), (''username'', JStr ''alice''), (''email'', JStr ''alice@x.com''),
           (''role'', JStr ''user''), (''banned'', JBool False), (''createdAt'', JNum 10)]"
proof -
  have anonymous: "passport_session sample_state escalation_request = Inr None"
    "passport_session sample_state (login_request ''alice'' ''secret1'') = Inr None"
    by (simp_all add: passport_session_def escalation_request_def login_request_def)
  have accepted: "db_ok ((db sample_state)\<lparr>users := users (db sample_state) @ [carol]\<rparr>)"
    by (simp add: db_ok_def sample_state_def sample_db_def alice_def bob_def root_def
          fair_def poster_def signup_form_def walkin_def carol_def)
  have free: "getUserByUsername (db sample_state) ''carol'' = None"
    "getUserByEmail (db sample_state) ''carol@x.com'' = None"
    by (simp_all add: getUserByUsername_def getUserByEmail_def first_row_def sample_state_def
          sample_db_def alice_def bob_def root_def)
  have register: "handle sample_env POST_register sample_state escalation_request =
      (reply 201 (Json (user_view carol)),
       regenerate_login
         (sample_state\<lparr>db := (db sample_state)\<lparr>users := users (db sample_state) @ [carol]\<rparr>\<rparr>)
         escalation_request (env_newSid sample_env) carol)"
    using sanitized_user_views [where ev = sample_env and st = sample_state
        and req = escalation_request and who = None and new = carol
        and userData = "\<lparr> rd_username = ''carol'', rd_email = ''carol@x.com'',
                            rd_password = ''secret3'' \<rparr>"]
      anonymous accepted free
    by (simp add: registrationSchema_escalation) (simp add: carol_def sample_env_def)
  have login: "handle sample_env POST_login sample_state (login_request ''alice'' ''secret1'') =
      (reply 200 (Json (user_view alice)),
       regenerate_login sample_state (login_request ''alice'' ''secret1'')
         (env_newSid sample_env) alice)"
    using sanitized_user_views [where ev = sample_env and st = sample_state
        and req = "login_request ''alice'' ''secret1''" and who = None
        and uname = "JStr ''alice''" and pw = "''secret1''" and usr = alice]
      anonymous
    by (simp add: sample_credentials param_text_def)
       (simp add: sample_state_def sample_env_def sample_getUserByUsername alice_def
          sample_compare)
  have current: "handle sample_env GET_user sample_state (session_request ''s1'' []) =
      (reply 200 (Json (user_view alice)), sample_state)"
    using sanitized_user_views [where ev = sample_env and st = sample_state
        and req = "session_request ''s1'' []" and usr = alice]
    by (simp add: sample_req_user)
  have listed: "handle sample_env GET_users sample_state (session_request ''s3'' []) =
      (reply 200 (Json (JArr (map user_view (getAllUsers (db sample_state))))), sample_state)"
    using sanitized_user_views [where ev = sample_env and st = sample_state
        and req = "session_request ''s3'' []" and usr = root]
    by (simp add: sample_req_user) (simp add: root_def)
  have view: "user_view alice =
     JObj [(''id'', JStr ''u1''), (''username'', JStr ''alice''), (''email'', JStr ''alice@x.com''),
           (''role'', JStr ''user''), (''banned'', JBool False), (''createdAt'', JNum 10)]"
    by (simp add: user_view_def alice_def json_time_def)
  from register login current listed view show ?thesis
    by (simp add: sample_state_def sample_env_def sample_db_def sample_getAllUsers [unfolded sample_db_def])
qed

section \<open>Properties of the authorization middleware\<close>

text \<open>
  C3. When the session of a request is bound to a user whose banned flag is set, both
  \<open>requireAuth\<close> and \<open>requireAdmin\<close> answer 403 and unbind the session; a route
  registered behind either of them answers the same without running its handler; and the
  same request sent again finds no user for the session and is answered 401.
\<close>

theorem banned_session_forbidden:
  assumes "cookie req = Some sid" and "sessions st sid = Some uid"
    and "getUser (db st) uid = Some user" and "banned user = Some True"
  shows "requireAuth st req =
           (reply 403 (message ''Access denied''), st\<lparr>sessions := (sessions st)(sid := None)\<rparr>) \<and>
         requireAdmin st req =
           (reply 403 (message ''Access denied''), st\<lparr>sessions := (sessions st)(sid := None)\<rparr>) \<and>
         guarded requireAuth handler st req =
           (reply 403 (message ''Access denied''), st\<lparr>sessions := (sessions st)(sid := None)\<rparr>) \<and>
         guarded requireAdmin handler st req =
           (reply 403 (message ''Access denied''), st\<lparr>sessions := (sessions st)(sid := None)\<rparr>) \<and>
         requireAuth (st\<lparr>sessions := (sessions st)(sid := None)\<rparr>) req =
           (reply 401 (message ''Authentication required''),
            st\<lparr>sessions := (sessions st)(sid := None)\<rparr>) \<and>
         requireAdmin (st\<lparr>sessions := (sessions st)(sid := None)\<rparr>) req =
           (reply 401 (message ''Authentication required''),
            st\<lparr>sessions := (sessions st)(sid := None)\<rparr>)"
proof -
  from assms have u: "req_user st req = Some user"
    by (simp add: req_user_eq)
  have gone: "req_user (st\<lparr>sessions := (sessions st)(sid := None)\<rparr>) req = None"
    using assms(1) by (simp add: req_user_eq)
  have out: "logout st req = st\<lparr>sessions := (sessions st)(sid := None)\<rparr>"
    using assms(1) by (simp add: logout_def regenerate_def)
  have a: "requireAuth st req =
      (reply 403 (message ''Access denied''), st\<lparr>sessions := (sessions st)(sid := None)\<rparr>)"
    using u assms(4) out by (simp add: requireAuth_def)
  have b: "requireAdmin st req =
      (reply 403 (message ''Access denied''), st\<lparr>sessions := (sessions st)(sid := None)\<rparr>)"
    using u assms(4) out by (simp add: requireAdmin_def)
  have c: "guarded requireAuth handler st req =
      (reply 403 (message ''Access denied''), st\<lparr>sessions := (sessions st)(sid := None)\<rparr>)"
    by (simp add: guarded_def a reply_def)
  have d: "guarded requireAdmin handler st req =
      (reply 403 (message ''Access denied''), st\<lparr>sessions := (sessions st)(sid := None)\<rparr>)"
    by (simp add: guarded_def b reply_def)
  have e: "requireAuth (st\<lparr>sessions := (sessions st)(sid := None)\<rparr>) req =
      (reply 401 (message ''Authentication required''), st\<lparr>sessions := (sessions st)(sid := None)\<rparr>)"
    using gone by (simp add: requireAuth_def)
  have f: "requireAdmin (st\<lparr>sessions := (sessions st)(sid := None)\<rparr>) req =
      (reply 401 (message ''Authentication required''), st\<lparr>sessions := (sessions st)(sid := None)\<rparr>)"
    using gone by (simp add: requireAdmin_def)
  from a b c d e f show ?thesis by simp
qed

theorem banned_session_forbidden_witness:
  "handle sample_env GET_users sample_state (session_request ''s2'' []) =
     (reply 403 (message ''Access denied''),
      sample_state\<lparr>sessions := (sessions sample_state)(''s2'' := None)\<rparr>) \<and>
   requireAuth sample_state (session_request ''s2'' []) =
     (reply 403 (message ''Access denied''),
      sample_state\<lparr>sessions := (sessions sample_state)(''s2'' := None)\<rparr>) \<and>
   requireAuth (sample_state\<lparr>sessions := (sessions sample_state)(''s2'' := None)\<rparr>)
       (session_request ''s2'' []) =
     (reply 401 (message ''Authentication required''),
      sample_state\<lparr>sessions := (sessions sample_state)(''s2'' := None)\<rparr>)"
  using banned_session_forbidden [where req = "session_request ''s2'' []" and sid = "''s2''"
          and st = sample_state and uid = "''u2''" and user = bob and handler = users_list_handler]
  by (simp add: session_request_def sample_state_def sample_getUser handle_def
        passport_session_def)
     (simp add: bob_def)

section \<open>Properties of the user management routes\<close>

lemma getUser_Some: "getUser d i = Some u \<Longrightarrow> id_user u = i \<and> u \<in> set (users d)"
  unfolding getUser_def by (drule first_row_filter) simp

lemma req_user_Some:
  "req_user st req = Some actor \<Longrightarrow> getUser (db st) (id_user actor) = Some actor"
  by (auto simp: req_user_eq split: option.splits dest: getUser_Some)

text \<open>
  An administrator who targets the own id is refused by the ban and the delete handler,
  with 400 and the state unchanged.
\<close>

lemma self_ban_delete_rejected:
  assumes "req_user st req = Some actor" and "banned actor \<noteq> Some True"
    and "role actor = ''admin''" and "params_id req = id_user actor"
  shows "handle ev PATCH_users_ban st req = (reply 400 (message ''Cannot ban yourself''), st)"
    and "handle ev DELETE_users st req = (reply 400 (message ''Cannot delete yourself''), st)"
  using assms
  by (simp_all add: handle_def passport_session_user guarded_def requireAdmin_def
        ban_handler_def delete_user_handler_def)

lemma users_len_maps:
  "list_all (\<lambda>u. length (username u) \<le> 255 \<and> length (email_user u) \<le> 255 \<and>
                  length (role u) \<le> 50) us \<longleftrightarrow>
     list_all (\<lambda>n. length n \<le> 255) (map username us) \<and>
     list_all (\<lambda>n. length n \<le> 255) (map email_user us) \<and>
     list_all (\<lambda>n. length n \<le> 50) (map role us)"
  by (induction us) auto

lemma db_ok_users_cong:
  assumes "map id_user us' = map id_user (users d)"
    and "map username us' = map username (users d)"
    and "map email_user us' = map email_user (users d)"
    and "map role us' = map role (users d)"
  shows "db_ok (d\<lparr>users := us'\<rparr>) = db_ok d"
proof -
  have sel: "users (d\<lparr>users := us'\<rparr>) = us'" "events (d\<lparr>users := us'\<rparr>) = events d"
    "qrSettings (d\<lparr>users := us'\<rparr>) = qrSettings d"
    "formSchemas (d\<lparr>users := us'\<rparr>) = formSchemas d"
    "registrations (d\<lparr>users := us'\<rparr>) = registrations d"
    by simp_all
  show ?thesis
    unfolding db_ok_def users_len_maps sel assms by (rule refl)
qed

lemma unban_keeps_db_ok:
  assumes "db_ok d"
  shows "db_ok (d\<lparr>users := map (\<lambda>u. if id_user u = i
                                  then u\<lparr>banned := Some False, updatedAt_user := Some now\<rparr>
                                  else u) (users d)\<rparr>)"
proof -
  let ?f = "\<lambda>u. if id_user u = i then u\<lparr>banned := Some False, updatedAt_user := Some now\<rparr> else u"
  have "db_ok (d\<lparr>users := map ?f (users d)\<rparr>) = db_ok d"
    by (rule db_ok_users_cong) (simp_all add: comp_def if_distrib cong: if_cong)
  with assms show ?thesis by simp
qed

text \<open>
  The unban handler has no such check: with the own id it updates the row and
  answers 200.
\<close>

lemma self_unban_accepted:
  assumes "req_user st req = Some actor" and "banned actor \<noteq> Some True"
    and "role actor = ''admin''" and "params_id req = id_user actor" and "db_ok (db st)"
  shows "handle ev PATCH_users_unban st req =
           (reply 200 (message ''User unbanned successfully''),
            st\<lparr>db := (db st)\<lparr>users := map (\<lambda>u. if id_user u = id_user actor
                   then u\<lparr>banned := Some False, updatedAt_user := Some (env_now ev)\<rparr>
                   else u) (users (db st))\<rparr>\<rparr>)"
proof -
  from assms(1) have "getUser (db st) (id_user actor) = Some actor"
    by (rule req_user_Some)
  then have found: "filter (\<lambda>u. id_user u = id_user actor) (users (db st)) \<noteq> []"
    by (auto simp: getUser_def first_row_def split: list.splits)
  have pass: "requireAdmin st req = (Next, st)"
    using assms(1-3) by (simp add: requireAdmin_def)
  have "unbanUser (db st) (env_now ev) (id_user actor) =
          Inr ((db st)\<lparr>users := map (\<lambda>u. if id_user u = id_user actor
                   then u\<lparr>banned := Some False, updatedAt_user := Some (env_now ev)\<rparr>
                   else u) (users (db st))\<rparr>, True)"
    using found unban_keeps_db_ok [OF assms(5)]
    by (simp add: unbanUser_def commit_def Let_def)
  with pass assms(1,4) show ?thesis
    by (simp add: handle_def passport_session_user guarded_def unban_handler_def)
qed

text \<open>
  C4 says that ban, unban and delete on the administrator's own id all fail with 400 and
  leave the row unchanged. The unban route does not: for the administrator \<open>root\<close> of
  the sample store, with the own session and the own id, it answers 200 and refreshes
  \<open>updatedAt\<close> of the row (5 before, 20 after).
\<close>

theorem self_unban_not_rejected:
  "handle sample_env PATCH_users_unban sample_state (session_request ''s3'' ''a1'') =
     (reply 200 (message ''User unbanned successfully''),
      sample_state\<lparr>db := sample_db\<lparr>users :=
         [alice, bob, root\<lparr>banned := Some False, updatedAt_user := Some 20\<rparr>]\<rparr>\<rparr>) \<and>
   updatedAt_user root = Some 5"
proof -
  have u: "req_user sample_state (session_request ''s3'' ''a1'') = Some root"
    by (simp add: req_user_eq session_request_def sample_state_def sample_getUser)
  have "handle sample_env PATCH_users_unban sample_state (session_request ''s3'' ''a1'') =
      (reply 200 (message ''User unbanned successfully''),
       sample_state\<lparr>db := (db sample_state)\<lparr>users := map (\<lambda>u. if id_user u = id_user root
                   then u\<lparr>banned := Some False, updatedAt_user := Some (env_now sample_env)\<rparr>
                   else u) (users (db sample_state))\<rparr>\<rparr>)"
    by (rule self_unban_accepted [OF u])
       (simp_all add: root_def session_request_def sample_state_def sample_db_ok)
  then show ?thesis
    by (simp add: sample_state_def sample_db_def sample_env_def alice_def bob_def root_def)
qed

section \<open>Properties of the event routes\<close>

lemma bare_db_ok: "db_ok bare_db"
  by (simp add: db_ok_def bare_db_def alice_def bob_def root_def fair_def)

lemma sample_anonymous_create:
  "event_create_handler ''n1'' 20 \<lparr> db = bare_db, sessions = Map.empty \<rparr>
      (anonymous_request [] (JObj [(''userId'', JStr ''u1''), (''name'', JStr ''Expo''),
                                   (''registrationUrl'', JStr ''http://elsewhere'')])) =
     (reply 201 (Json (event_json expo)),
      \<lparr> db = bare_db\<lparr>events := [fair, expo]\<rparr>, sessions = Map.empty \<rparr>)"
  by (simp add: event_create_handler_def insertEventSchema_def anonymous_request_def
        createEvent_def commit_def db_ok_def bare_db_def alice_def bob_def
        root_def fair_def expo_def Let_def)

lemma z_required_string:
  "z_required (z_string lo hi) x = Valid v \<Longrightarrow> x = Some (JStr v)"
  by (cases x; cases "the x") (auto split: if_splits)

lemma insertEventSchema_userId:
  "insertEventSchema b = Inr ed \<Longrightarrow> field b ''userId'' = Some (JStr (ins_userId ed))"
  by (auto simp: insertEventSchema_def Let_def split: json.splits zres.splits
           dest: z_required_string)

lemma createEvent_result:
  "createEvent d newId now ins = Inr (d', e) \<Longrightarrow>
     registrationUrl e = Some (''/register/'' @ ins_userId ins) \<and> events d' = events d @ [e]"
  by (auto simp: createEvent_def commit_def Let_def split: if_splits)

lemma insertEventSchema_fields:
  assumes "b = JObj kvs" and "b' = JObj kvs'"
    and "\<forall>k \<in> {''userId'', ''name'', ''description'', ''eventDate'', ''eventTime'', ''isActive''}.
           field b k = field b' k"
  shows "insertEventSchema b = insertEventSchema b'"
  using assms by (simp add: insertEventSchema_def)

text \<open>
  C8. The event that \<open>createEvent\<close> stores has the registration URL \<open>/register/\<close>
  followed by the owner's user id of the input, whatever else the input holds. Through
  the create route: a 201 answer carries the stored event, whose registration URL is
  \<open>/register/\<close> followed by the \<open>userId\<close> of the body, and two bodies that agree on
  the six keys of the insert schema (so differ at most in keys such as
  \<open>registrationUrl\<close>) give the same response and state.
\<close>

theorem createEvent_derives_registrationUrl:
  "(createEvent d newId now ins = Inr (d', e) \<longrightarrow>
      registrationUrl e = Some (''/register/'' @ ins_userId ins) \<and> events d' = events d @ [e]) \<and>
   (event_create_handler newId now st req = (reply 201 p, st') \<longrightarrow>
      (\<exists>ev uid. field (body req) ''userId'' = Some (JStr uid) \<and>
                registrationUrl ev = Some (''/register/'' @ uid) \<and>
                events (db st') = events (db st) @ [ev] \<and> p = Json (event_json ev))) \<and>
   ((\<exists>kvs. b = JObj kvs) \<and> (\<exists>kvs. b' = JObj kvs) \<and>
    (\<forall>k \<in> {''userId'', ''name'', ''description'', ''eventDate'', ''eventTime'', ''isActive''}.
        field b k = field b' k) \<longrightarrow>
      event_create_handler newId now st (req\<lparr>body := b\<rparr>) =
      event_create_handler newId now st (req\<lparr>body := b'\<rparr>))"
proof (intro conjI impI)
  assume "createEvent d newId now ins = Inr (d', e)"
  then show "registrationUrl e = Some (''/register/'' @ ins_userId ins)"
    and "events d' = events d @ [e]"
    by (auto dest: createEvent_result)
next
  assume h: "event_create_handler newId now st req = (reply 201 p, st')"
  then obtain ed d'' ev where parsed: "insertEventSchema (body req) = Inr ed"
    and created: "createEvent (db st) newId now ed = Inr (d'', ev)"
    and res: "p = Json (event_json ev)" "st' = st\<lparr>db := d''\<rparr>"
    by (auto simp: event_create_handler_def reply_def split: sum.splits prod.splits)
  from parsed have "field (body req) ''userId'' = Some (JStr (ins_userId ed))"
    by (rule insertEventSchema_userId)
  with createEvent_result [OF created] res
  show "\<exists>ev uid. field (body req) ''userId'' = Some (JStr uid) \<and>
                registrationUrl ev = Some (''/register/'' @ uid) \<and>
                events (db st') = events (db st) @ [ev] \<and> p = Json (event_json ev)"
    by auto
next
  assume "(\<exists>kvs. b = JObj kvs) \<and> (\<exists>kvs. b' = JObj kvs) \<and>
    (\<forall>k \<in> {''userId'', ''name'', ''description'', ''eventDate'', ''eventTime'', ''isActive''}.
        field b k = field b' k)"
  then have "insertEventSchema b = insertEventSchema b'"
    by (auto intro!: insertEventSchema_fields)
  then show "event_create_handler newId now st (req\<lparr>body := b\<rparr>) =
      event_create_handler newId now st (req\<lparr>body := b'\<rparr>)"
    by (simp add: event_create_handler_def)
qed

theorem createEvent_derives_registrationUrl_witness:
  "event_create_handler ''n1'' 20 \<lparr> db = bare_db, sessions = Map.empty \<rparr>
      (anonymous_request [] (JObj [(''userId'', JStr ''u1''), (''name'', JStr ''Expo''),
                                   (''registrationUrl'', JStr ''http://elsewhere'')])) =
     (reply 201 (Json (event_json expo)),
      \<lparr> db = bare_db\<lparr>events := [fair, expo]\<rparr>, sessions = Map.empty \<rparr>) \<and>
   registrationUrl expo = Some ''/register/u1'' \<and>
   event_create_handler ''n1'' 20 \<lparr> db = bare_db, sessions = Map.empty \<rparr>
      ((anonymous_request [] (JObj []))\<lparr>body := JObj [(''userId'', JStr ''u1''), (''name'', JStr ''Expo'')]\<rparr>) =
     (reply 201 (Json (event_json expo)),
      \<lparr> db = bare_db\<lparr>events := [fair, expo]\<rparr>, sessions = Map.empty \<rparr>)"
  using createEvent_derives_registrationUrl [where newId = "''n1''" and now = 20
          and st = "\<lparr> db = bare_db, sessions = Map.empty \<rparr>"
          and req = "anonymous_request [] (JObj [])"
          and b = "JObj [(''userId'', JStr ''u1''), (''name'', JStr ''Expo'')]"
          and b' = "JObj [(''userId'', JStr ''u1''), (''name'', JStr ''Expo''),
                          (''registrationUrl'', JStr ''http://elsewhere'')]"]
        sample_anonymous_create
  by (simp add: anonymous_request_def sample_env_def expo_def)

subsection \<open>No authentication on the event routes\<close>

lemma event_routes_respond:
  "\<exists>r st'. events_list_handler st req = (Respond r, st') \<and> status r \<noteq> 401 \<and> status r \<noteq> 403"
  "\<exists>r st'. event_get_handler st req = (Respond r, st') \<and> status r \<noteq> 401 \<and> status r \<noteq> 403"
  "\<exists>r st'. event_create_handler i t st req = (Respond r, st') \<and> status r \<noteq> 401 \<and> status r \<noteq> 403"
  "\<exists>r st'. event_update_handler t st req = (Respond r, st') \<and> status r \<noteq> 401 \<and> status r \<noteq> 403"
  "\<exists>r st'. event_delete_handler st req = (Respond r, st') \<and> status r \<noteq> 401 \<and> status r \<noteq> 403"
  by (auto simp: events_list_handler_def event_get_handler_def event_create_handler_def
        event_update_handler_def event_delete_handler_def reply_def
        split: option.splits sum.splits prod.splits)

lemma event_routes_session_free:
  "fst (events_list_handler (st\<lparr>sessions := s\<rparr>) (req\<lparr>cookie := c\<rparr>)) = fst (events_list_handler st req)"
  "db (snd (events_list_handler (st\<lparr>sessions := s\<rparr>) (req\<lparr>cookie := c\<rparr>))) = db (snd (events_list_handler st req))"
  "fst (event_get_handler (st\<lparr>sessions := s\<rparr>) (req\<lparr>cookie := c\<rparr>)) = fst (event_get_handler st req)"
  "db (snd (event_get_handler (st\<lparr>sessions := s\<rparr>) (req\<lparr>cookie := c\<rparr>))) = db (snd (event_get_handler st req))"
  "fst (event_create_handler i t (st\<lparr>sessions := s\<rparr>) (req\<lparr>cookie := c\<rparr>)) = fst (event_create_handler i t st req)"
  "db (snd (event_create_handler i t (st\<lparr>sessions := s\<rparr>) (req\<lparr>cookie := c\<rparr>))) = db (snd (event_create_handler i t st req))"
  "fst (event_update_handler t (st\<lparr>sessions := s\<rparr>) (req\<lparr>cookie := c\<rparr>)) = fst (event_update_handler t st req)"
  "db (snd (event_update_handler t (st\<lparr>sessions := s\<rparr>) (req\<lparr>cookie := c\<rparr>))) = db (snd (event_update_handler t st req))"
  "fst (event_delete_handler (st\<lparr>sessions := s\<rparr>) (req\<lparr>cookie := c\<rparr>)) = fst (event_delete_handler st req)"
  "db (snd (event_delete_handler (st\<lparr>sessions := s\<rparr>) (req\<lparr>cookie := c\<rparr>))) = db (snd (event_delete_handler st req))"
  by (auto simp: events_list_handler_def event_get_handler_def event_create_handler_def
        event_update_handler_def event_delete_handler_def
        split: option.splits sum.splits prod.splits)

lemma event_route_respond:
  assumes "route \<in> {GET_events, GET_events_id, POST_events, PATCH_events_id, DELETE_events_id}"
  shows "\<exists>r st'. route_handler ev route st req = (Respond r, st') \<and>
                  status r \<noteq> 401 \<and> status r \<noteq> 403"
  using assms event_routes_respond [where st = st and req = req] by auto

lemma event_route_session_free:
  assumes "route \<in> {GET_events, GET_events_id, POST_events, PATCH_events_id, DELETE_events_id}"
  shows "fst (route_handler ev route (st\<lparr>sessions := s\<rparr>) (req\<lparr>cookie := c\<rparr>)) =
           fst (route_handler ev route st req) \<and>
         db (snd (route_handler ev route (st\<lparr>sessions := s\<rparr>) (req\<lparr>cookie := c\<rparr>))) =
           db (snd (route_handler ev route st req))"
  using assms event_routes_session_free [where st = st and req = req and s = s and c = c] by auto

text \<open>What an anonymous request does to any event of any store.\<close>

lemma getEvent_found:
  "getEvent d i = Some e \<Longrightarrow> filter (\<lambda>x. id_event x = i) (events d) \<noteq> [] \<and>
     first_row (map f (filter (\<lambda>x. id_event x = i) (events d))) = Some (f e)"
  by (cases "filter (\<lambda>x. id_event x = i) (events d)") (auto simp: getEvent_def first_row_def)

lemma anonymous_create:
  assumes "cookie req = None" and "insertEventSchema (body req) = Inr ins"
    and "e = \<lparr> id_event = env_newId ev, userId = ins_userId ins, name_event = ins_name ins,
                 description = or_default (ins_description ins) None,
                 eventDate = or_default (ins_eventDate ins) None,
                 eventTime = or_default (ins_eventTime ins) None,
                 qrCodeUrl = None,
                 registrationUrl = Some (''/register/'' @ ins_userId ins),
                 isActive = or_default (ins_isActive ins) (Some True),
                 createdAt_event = Some (env_now ev), updatedAt_event = Some (env_now ev) \<rparr>"
    and "db_ok ((db st)\<lparr>events := events (db st) @ [e]\<rparr>)"
  shows "handle ev POST_events st req =
           (reply 201 (Json (event_json e)), st\<lparr>db := (db st)\<lparr>events := events (db st) @ [e]\<rparr>\<rparr>)"
  using assms
  by (simp add: handle_def passport_session_anonymous event_create_handler_def createEvent_def
        commit_def Let_def)

lemma anonymous_update:
  assumes "cookie req = None" and "insertEventSchema_partial (body req) = Inr p"
    and "getEvent (db st) (params_id req) = Some e"
    and "db_ok ((db st)\<lparr>events := map (\<lambda>x. if id_event x = params_id req
                                            then apply_partial_event p (env_now ev) x else x)
                                     (events (db st))\<rparr>)"
  shows "handle ev PATCH_events_id st req =
           (reply 200 (Json (event_json (apply_partial_event p (env_now ev) e))),
            st\<lparr>db := (db st)\<lparr>events := map (\<lambda>x. if id_event x = params_id req
                                                then apply_partial_event p (env_now ev) x else x)
                                         (events (db st))\<rparr>\<rparr>)"
  using assms getEvent_found [OF assms(3), of "apply_partial_event p (env_now ev)"]
  by (simp add: handle_def passport_session_anonymous event_update_handler_def updateEvent_def
        commit_def)

lemma anonymous_delete:
  assumes "cookie req = None" and "getEvent (db st) (params_id req) = Some e"
    and "db_ok ((db st)\<lparr>events := filter (\<lambda>x. id_event x \<noteq> params_id req) (events (db st))\<rparr>)"
  shows "handle ev DELETE_events_id st req =
           (reply 204 NoBody,
            st\<lparr>db := (db st)\<lparr>events := filter (\<lambda>x. id_event x \<noteq> params_id req)
                                            (events (db st))\<rparr>\<rparr>)"
  using assms getEvent_found [OF assms(2), of id]
  by (simp add: handle_def passport_session_anonymous event_delete_handler_def deleteEvent_def
        commit_def Let_def)

text \<open>
  C10. For each of the five event routes and every request, whatever its session: the
  response, if one is sent, has a status other than 401 and 403, and none is sent only
  when the session names a deleted user, in which case \<open>passport.session()\<close> ends the
  request with an error that the error middleware answers with 500. A request that
  reaches the route gets the response, and leaves the database, that the same request
  without any session gets: the routes check neither who asks nor whose event it is. An
  anonymous request creates an event with a valid body, and modifies or deletes any
  stored event, whoever owns it, whenever the store accepts the statement.
\<close>

theorem events_routes_no_auth:
  assumes "route \<in> {GET_events, GET_events_id, POST_events, PATCH_events_id, DELETE_events_id}"
  shows "(handle ev route st req = (out, st') \<longrightarrow>
            (case out of
               Respond r \<Rightarrow> status r \<noteq> 401 \<and> status r \<noteq> 403
             | Next \<Rightarrow> False
             | NextErr err \<Rightarrow>
                 passport_session st req = Inl err \<and>
                 error_status err \<noteq> 401 \<and> error_status err \<noteq> 403)) \<and>
         (passport_session st req = Inr who \<longrightarrow>
            (\<exists>r st'. handle ev route st req = (Respond r, st')) \<and>
            fst (handle ev route st req) =
              fst (handle ev route (st\<lparr>sessions := s\<rparr>) (req\<lparr>cookie := None\<rparr>)) \<and>
            db (snd (handle ev route st req)) =
              db (snd (handle ev route (st\<lparr>sessions := s\<rparr>) (req\<lparr>cookie := None\<rparr>)))) \<and>
         (cookie req = None \<and> insertEventSchema (body req) = Inr ins \<and>
          e = \<lparr> id_event = env_newId ev, userId = ins_userId ins, name_event = ins_name ins,
                description = or_default (ins_description ins) None,
                eventDate = or_default (ins_eventDate ins) None,
                eventTime = or_default (ins_eventTime ins) None,
                qrCodeUrl = None,
                registrationUrl = Some (''/register/'' @ ins_userId ins),
                isActive = or_default (ins_isActive ins) (Some True),
                createdAt_event = Some (env_now ev), updatedAt_event = Some (env_now ev) \<rparr> \<and>
          db_ok ((db st)\<lparr>events := events (db st) @ [e]\<rparr>) \<longrightarrow>
            handle ev POST_events st req =
              (reply 201 (Json (event_json e)),
               st\<lparr>db := (db st)\<lparr>events := events (db st) @ [e]\<rparr>\<rparr>)) \<and>
         (cookie req = None \<and> insertEventSchema_partial (body req) = Inr p \<and>
          getEvent (db st) (params_id req) = Some old \<and>
          db_ok ((db st)\<lparr>events := map (\<lambda>x. if id_event x = params_id req
                                              then apply_partial_event p (env_now ev) x else x)
                                       (events (db st))\<rparr>) \<longrightarrow>
            handle ev PATCH_events_id st req =
              (reply 200 (Json (event_json (apply_partial_event p (env_now ev) old))),
               st\<lparr>db := (db st)\<lparr>events := map (\<lambda>x. if id_event x = params_id req
                                                   then apply_partial_event p (env_now ev) x else x)
                                            (events (db st))\<rparr>\<rparr>)) \<and>
         (cookie req = None \<and> getEvent (db st) (params_id req) = Some old \<and>
          db_ok ((db st)\<lparr>events := filter (\<lambda>x. id_event x \<noteq> params_id req)
                                       (events (db st))\<rparr>) \<longrightarrow>
            handle ev DELETE_events_id st req =
              (reply 204 NoBody,
               st\<lparr>db := (db st)\<lparr>events := filter (\<lambda>x. id_event x \<noteq> params_id req)
                                               (events (db st))\<rparr>\<rparr>))"
proof (intro conjI impI)
  assume h: "handle ev route st req = (out, st')"
  show "case out of
          Respond r \<Rightarrow> status r \<noteq> 401 \<and> status r \<noteq> 403
        | Next \<Rightarrow> False
        | NextErr err \<Rightarrow>
            passport_session st req = Inl err \<and>
            error_status err \<noteq> 401 \<and> error_status err \<noteq> 403"
  proof (cases "passport_session st req")
    case (Inl err)
    with h show ?thesis by (auto simp: handle_def error_status_def)
  next
    case (Inr who')
    with h event_route_respond [OF assms, where ev = ev and st = st and req = req] show ?thesis
      by (auto simp: handle_def)
  qed
next
  assume p: "passport_session st req = Inr who"
  have a: "passport_session (st\<lparr>sessions := s\<rparr>) (req\<lparr>cookie := None\<rparr>) = Inr None"
    by (simp add: passport_session_def)
  from p event_route_respond [OF assms, where ev = ev and st = st and req = req]
  show "\<exists>r st'. handle ev route st req = (Respond r, st')"
    by (auto simp: handle_def)
  from p a event_route_session_free [OF assms, where ev = ev and st = st and req = req and s = s and c = None]
  show "fst (handle ev route st req) =
          fst (handle ev route (st\<lparr>sessions := s\<rparr>) (req\<lparr>cookie := None\<rparr>))"
    and "db (snd (handle ev route st req)) =
          db (snd (handle ev route (st\<lparr>sessions := s\<rparr>) (req\<lparr>cookie := None\<rparr>)))"
    by (simp_all add: handle_def)
next
  assume "cookie req = None \<and> insertEventSchema (body req) = Inr ins \<and>
          e = \<lparr> id_event = env_newId ev, userId = ins_userId ins, name_event = ins_name ins,
                description = or_default (ins_description ins) None,
                eventDate = or_default (ins_eventDate ins) None,
                eventTime = or_default (ins_eventTime ins) None,
                qrCodeUrl = None,
                registrationUrl = Some (''/register/'' @ ins_userId ins),
                isActive = or_default (ins_isActive ins) (Some True),
                createdAt_event = Some (env_now ev), updatedAt_event = Some (env_now ev) \<rparr> \<and>
          db_ok ((db st)\<lparr>events := events (db st) @ [e]\<rparr>)"
  then show "handle ev POST_events st req =
              (reply 201 (Json (event_json e)),
               st\<lparr>db := (db st)\<lparr>events := events (db st) @ [e]\<rparr>\<rparr>)"
    by (elim conjE) (rule anonymous_create; assumption)
next
  assume "cookie req = None \<and> insertEventSchema_partial (body req) = Inr p \<and>
          getEvent (db st) (params_id req) = Some old \<and>
          db_ok ((db st)\<lparr>events := map (\<lambda>x. if id_event x = params_id req
                                              then apply_partial_event p (env_now ev) x else x)
                                       (events (db st))\<rparr>)"
  then show "handle ev PATCH_events_id st req =
              (reply 200 (Json (event_json (apply_partial_event p (env_now ev) old))),
               st\<lparr>db := (db st)\<lparr>events := map (\<lambda>x. if id_event x = params_id req
                                                   then apply_partial_event p (env_now ev) x else x)
                                            (events (db st))\<rparr>\<rparr>)"
    by (elim conjE) (rule anonymous_update; assumption)
next
  assume "cookie req = None \<and> getEvent (db st) (params_id req) = Some old \<and>
          db_ok ((db st)\<lparr>events := filter (\<lambda>x. id_event x \<noteq> params_id req)
                                       (events (db st))\<rparr>)"
  then show "handle ev DELETE_events_id st req =
              (reply 204 NoBody,
               st\<lparr>db := (db st)\<lparr>events := filter (\<lambda>x. id_event x \<noteq> params_id req)
                                               (events (db st))\<rparr>\<rparr>)"
    by (elim conjE) (rule anonymous_delete; assumption)
qed

lemma shared_sample_facts:
  "cookie (anonymous_request i b) = None"
  "params_id (anonymous_request i b) = i"
  "body (anonymous_request i b) = b"
  "db shared_state = shared_db"
  "events shared_db = [fair, gala]"
  "env_now sample_env = 20"
  "env_newId sample_env = ''n1''"
  "getEvent shared_db ''e2'' = Some gala"
  "id_event fair = ''e1''"
  "id_event gala = ''e2''"
  "(session_request ''s1'' ''e2'')\<lparr>cookie := None\<rparr> = anonymous_request ''e2'' (JObj [])"
  "shared_state\<lparr>sessions := sessions shared_state\<rparr> = shared_state"
  by (simp_all add: anonymous_request_def session_request_def shared_state_def shared_db_def
        sample_env_def getEvent_def first_row_def fair_def gala_def)

lemma shared_db_stores:
  "db_ok (shared_db\<lparr>events := [fair]\<rparr>)"
  "db_ok (shared_db\<lparr>events := [fair, gala\<lparr>name_event := ''Renamed'', updatedAt_event := Some 20\<rparr>]\<rparr>)"
  "db_ok (shared_db\<lparr>events := [fair, gala, expo]\<rparr>)"
  by (simp_all add: db_ok_def shared_db_def alice_def bob_def root_def fair_def gala_def expo_def
        poster_def signup_form_def walkin_def)

lemma shared_rename:
  "insertEventSchema_partial (JObj [(''name'', JStr ''Renamed'')]) =
     Inr (no_change_event\<lparr>set_name_event := Some ''Renamed''\<rparr>)"
  "apply_partial_event (no_change_event\<lparr>set_name_event := Some ''Renamed''\<rparr>) 20 gala =
     gala\<lparr>name_event := ''Renamed'', updatedAt_event := Some 20\<rparr>"
  by (simp_all add: insertEventSchema_partial_def no_change_event_def apply_partial_event_def
        fair_def gala_def)

lemma shared_create:
  "insertEventSchema (JObj [(''userId'', JStr ''u1''), (''name'', JStr ''Expo'')]) =
     Inr \<lparr> ins_userId = ''u1'', ins_name = ''Expo'', ins_description = None,
           ins_eventDate = None, ins_eventTime = None, ins_isActive = None \<rparr>"
  by (simp add: insertEventSchema_def)

lemma shared_stale_session:
  "handle sample_env GET_events shared_state (session_request ''s7'' []) =
     (NextErr (Error ''Failed to deserialize user out of session''), shared_state)"
  "passport_session shared_state (session_request ''s1'' ''e2'') = Inr (Some alice)"
  by (simp_all add: handle_def passport_session_def session_request_def shared_state_def
        shared_db_def getUser_def first_row_def alice_def bob_def root_def)

theorem events_routes_no_auth_witness:
  "handle sample_env DELETE_events_id shared_state (anonymous_request ''e2'' (JObj [])) =
     (reply 204 NoBody, shared_state\<lparr>db := shared_db\<lparr>events := [fair]\<rparr>\<rparr>) \<and>
   handle sample_env PATCH_events_id shared_state
       (anonymous_request ''e2'' (JObj [(''name'', JStr ''Renamed'')])) =
     (reply 200 (Json (event_json (gala\<lparr>name_event := ''Renamed'', updatedAt_event := Some 20\<rparr>))),
      shared_state\<lparr>db := shared_db\<lparr>events :=
        [fair, gala\<lparr>name_event := ''Renamed'', updatedAt_event := Some 20\<rparr>]\<rparr>\<rparr>) \<and>
   handle sample_env POST_events shared_state
       (anonymous_request [] (JObj [(''userId'', JStr ''u1''), (''name'', JStr ''Expo'')])) =
     (reply 201 (Json (event_json expo)),
      shared_state\<lparr>db := shared_db\<lparr>events := [fair, gala, expo]\<rparr>\<rparr>) \<and>
   passport_session shared_state (session_request ''s7'' []) =
     Inl (Error ''Failed to deserialize user out of session'') \<and>
   error_status (Error ''Failed to deserialize user out of session'') = 500 \<and>
   fst (handle sample_env DELETE_events_id shared_state (session_request ''s1'' ''e2'')) =
     reply 204 NoBody \<and>
   db (snd (handle sample_env DELETE_events_id shared_state (session_request ''s1'' ''e2''))) =
     shared_db\<lparr>events := [fair]\<rparr>"
proof -
  have del: "handle sample_env DELETE_events_id shared_state (anonymous_request ''e2'' (JObj [])) =
      (reply 204 NoBody, shared_state\<lparr>db := shared_db\<lparr>events := [fair]\<rparr>\<rparr>)"
    using events_routes_no_auth [where route = DELETE_events_id and ev = sample_env
            and st = shared_state and req = "anonymous_request ''e2'' (JObj [])"
            and old = gala, THEN conjunct2, THEN conjunct2, THEN conjunct2, THEN conjunct2]
          shared_db_stores(1)
    by (simp add: shared_sample_facts)
  have upd: "handle sample_env PATCH_events_id shared_state
       (anonymous_request ''e2'' (JObj [(''name'', JStr ''Renamed'')])) =
     (reply 200 (Json (event_json (gala\<lparr>name_event := ''Renamed'', updatedAt_event := Some 20\<rparr>))),
      shared_state\<lparr>db := shared_db\<lparr>events :=
        [fair, gala\<lparr>name_event := ''Renamed'', updatedAt_event := Some 20\<rparr>]\<rparr>\<rparr>)"
    using events_routes_no_auth [where route = PATCH_events_id and ev = sample_env
            and st = shared_state
            and req = "anonymous_request ''e2'' (JObj [(''name'', JStr ''Renamed'')])"
            and old = gala and p = "no_change_event\<lparr>set_name_event := Some ''Renamed''\<rparr>",
            THEN conjunct2, THEN conjunct2, THEN conjunct2, THEN conjunct1]
          shared_db_stores(2)
    by (simp add: shared_sample_facts shared_rename)
  have cre: "handle sample_env POST_events shared_state
       (anonymous_request [] (JObj [(''userId'', JStr ''u1''), (''name'', JStr ''Expo'')])) =
     (reply 201 (Json (event_json expo)),
      shared_state\<lparr>db := shared_db\<lparr>events := [fair, gala, expo]\<rparr>\<rparr>)"
    using events_routes_no_auth [where route = POST_events and ev = sample_env
            and st = shared_state
            and req = "anonymous_request [] (JObj [(''userId'', JStr ''u1''), (''name'', JStr ''Expo'')])"
            and e = expo
            and ins = "\<lparr> ins_userId = ''u1'', ins_name = ''Expo'', ins_description = None,
                         ins_eventDate = None, ins_eventTime = None, ins_isActive = None \<rparr>",
            THEN conjunct2, THEN conjunct2, THEN conjunct1]
          shared_db_stores(3)
    by (simp add: shared_sample_facts shared_create expo_def)
  have stale: "passport_session shared_state (session_request ''s7'' []) =
       Inl (Error ''Failed to deserialize user out of session'') \<and>
     error_status (Error ''Failed to deserialize user out of session'') = 500"
    using events_routes_no_auth [where route = GET_events and ev = sample_env
            and st = shared_state and req = "session_request ''s7'' []"
            and out = "NextErr (Error ''Failed to deserialize user out of session'')"
            and st' = shared_state, THEN conjunct1]
          shared_stale_session(1)
    by (simp add: error_status_def)
  have same: "fst (handle sample_env DELETE_events_id shared_state (session_request ''s1'' ''e2'')) =
       fst (handle sample_env DELETE_events_id shared_state (anonymous_request ''e2'' (JObj []))) \<and>
     db (snd (handle sample_env DELETE_events_id shared_state (session_request ''s1'' ''e2''))) =
       db (snd (handle sample_env DELETE_events_id shared_state (anonymous_request ''e2'' (JObj []))))"
    using events_routes_no_auth [where route = DELETE_events_id and ev = sample_env
            and st = shared_state and req = "session_request ''s1'' ''e2''"
            and who = "Some alice" and s = "sessions shared_state",
            THEN conjunct2, THEN conjunct1]
          shared_stale_session(2)
    by (simp add: shared_sample_facts)
  from del upd cre stale same show ?thesis by simp
qed

section \<open>Properties of the update operations\<close>

lemma no_row_map:
  "first_row (filter P rows) = None \<Longrightarrow>
     map (\<lambda>r. if P r then f r else r) rows = rows \<and> first_row (map f (filter P rows)) = None"
proof -
  assume "first_row (filter P rows) = None"
  then have e: "filter P rows = []" by (simp add: first_row_def split: list.splits)
  then have "\<forall>r \<in> set rows. \<not> P r" by (simp add: filter_empty_conv)
  then have "map (\<lambda>r. if P r then f r else r) rows = rows"
    by (induction rows) auto
  with e show ?thesis by (simp add: first_row_def)
qed

text \<open>With a primary key, \<open>WHERE id = i\<close> selects one row, and the update replaces that row.\<close>

lemma one_row_map:
  assumes "distinct (map key rows)" and "first_row (filter (\<lambda>r. key r = i) rows) = Some old"
  shows "\<exists>k. k < length rows \<and> rows ! k = old \<and>
           map (\<lambda>r. if key r = i then f r else r) rows = rows[k := f old] \<and>
           first_row (map f (filter (\<lambda>r. key r = i) rows)) = Some (f old)"
proof -
  from assms(2) obtain rest where fl: "filter (\<lambda>r. key r = i) rows = old # rest"
    by (cases "filter (\<lambda>r. key r = i) rows") (auto simp: first_row_def)
  then have "old \<in> set (filter (\<lambda>r. key r = i) rows)" by simp
  then have mem: "old \<in> set rows" and ki: "key old = i" by auto
  from mem obtain k where k: "k < length rows" "rows ! k = old"
    by (auto simp: in_set_conv_nth)
  have "map (\<lambda>r. if key r = i then f r else r) rows = rows[k := f old]"
  proof (rule nth_equalityI)
    show "length (map (\<lambda>r. if key r = i then f r else r) rows) = length (rows[k := f old])"
      by simp
  next
    fix j assume "j < length (map (\<lambda>r. if key r = i then f r else r) rows)"
    then have j: "j < length rows" by simp
    show "map (\<lambda>r. if key r = i then f r else r) rows ! j = rows[k := f old] ! j"
    proof (cases "j = k")
      case True
      with k ki show ?thesis by simp
    next
      case False
      from assms(1) j k(1) False have "map key rows ! j \<noteq> map key rows ! k"
        by (simp add: nth_eq_iff_index_eq del: nth_map)
      with j k ki have "key (rows ! j) \<noteq> i" by simp
      with j False show ?thesis by simp
    qed
  qed
  moreover from fl have "first_row (map f (filter (\<lambda>r. key r = i) rows)) = Some (f old)"
    by (simp add: first_row_def)
  ultimately show ?thesis using k by blast
qed

lemma updateUser_found:
  "(db_ok d \<and> getUser d i = Some old_user \<and>
  updateUser d now i pu = Inr (d', res_user) \<longrightarrow>
     (\<exists>new k. res_user = Some new \<and>
        id_user new = set_col (set_id_user pu) (id_user old_user) \<and>
        username new = set_col (set_username pu) (username old_user) \<and>
        email_user new = set_col (set_email_user pu) (email_user old_user) \<and>
        password new = set_col (set_password pu) (password old_user) \<and>
        role new = set_col (set_role pu) (role old_user) \<and>
        banned new = set_col (set_banned pu) (banned old_user) \<and>
        createdAt_user new = set_col (set_createdAt_user pu) (createdAt_user old_user) \<and>
        updatedAt_user new = Some now \<and>
        k < length (users d) \<and> users d ! k = old_user \<and>
        d' = d\<lparr>users := (users d)[k := new]\<rparr> \<and> db_ok d'))"
proof (intro impI, elim conjE)
  assume ok: "db_ok d" and g: "getUser d i = Some old_user"
    and u: "updateUser d now i pu = Inr (d', res_user)"
  from ok have "distinct (map id_user (users d))" by (simp add: db_ok_def)
  from one_row_map [OF this, where i = i and old = old_user and f = "apply_partial_user pu now"] g
  obtain k where k: "k < length (users d)" "users d ! k = old_user"
    and m: "map (\<lambda>r. if id_user r = i then apply_partial_user pu now r else r) (users d) =
              (users d)[k := apply_partial_user pu now old_user]"
    and r: "first_row (map (apply_partial_user pu now) (filter (\<lambda>r. id_user r = i) (users d))) =
              Some (apply_partial_user pu now old_user)"
    by (auto simp: getUser_def)
  from u m r have res: "res_user = Some (apply_partial_user pu now old_user)"
    and d': "d' = d\<lparr>users := (users d)[k := apply_partial_user pu now old_user]\<rparr>"
    and ok': "db_ok d'"
    by (auto simp: updateUser_def commit_def getUser_def split: if_splits)
  show "\<exists>new k. res_user = Some new \<and>
     id_user new = set_col (set_id_user pu) (id_user old_user) \<and>
     username new = set_col (set_username pu) (username old_user) \<and>
     email_user new = set_col (set_email_user pu) (email_user old_user) \<and>
     password new = set_col (set_password pu) (password old_user) \<and>
     role new = set_col (set_role pu) (role old_user) \<and>
     banned new = set_col (set_banned pu) (banned old_user) \<and>
     createdAt_user new = set_col (set_createdAt_user pu) (createdAt_user old_user) \<and>
     updatedAt_user new = Some now \<and>
     k < length (users d) \<and> users d ! k = old_user \<and>
     d' = d\<lparr>users := (users d)[k := new]\<rparr> \<and> db_ok d'"
    using res d' ok' k
    by (intro exI [of _ "apply_partial_user pu now old_user"] exI [of _ k]) (simp add: apply_partial_user_def)
qed

lemma updateUser_missing:
  "(db_ok d \<and> getUser d i = None \<longrightarrow>
     updateUser d now i pu = Inr (d, None))"
  using no_row_map [of "\<lambda>r. id_user r = i" "users d" "apply_partial_user pu now"]
  by (simp add: updateUser_def commit_def getUser_def)

lemma updateEvent_found:
  "(db_ok d \<and> getEvent d i = Some old_event \<and>
  updateEvent d now i pe = Inr (d', res_event) \<longrightarrow>
     (\<exists>new k. res_event = Some new \<and>
        id_event new = set_col (set_id_event pe) (id_event old_event) \<and>
        userId new = set_col (set_userId pe) (userId old_event) \<and>
        name_event new = set_col (set_name_event pe) (name_event old_event) \<and>
        description new = set_col (set_description pe) (description old_event) \<and>
        eventDate new = set_col (set_eventDate pe) (eventDate old_event) \<and>
        eventTime new = set_col (set_eventTime pe) (eventTime old_event) \<and>
        qrCodeUrl new = set_col (set_qrCodeUrl pe) (qrCodeUrl old_event) \<and>
        registrationUrl new = set_col (set_registrationUrl pe) (registrationUrl old_event) \<and>
        isActive new = set_col (set_isActive pe) (isActive old_event) \<and>
        createdAt_event new = set_col (set_createdAt_event pe) (createdAt_event old_event) \<and>
        updatedAt_event new = Some now \<and>
        k < length (events d) \<and> events d ! k = old_event \<and>
        d' = d\<lparr>events := (events d)[k := new]\<rparr> \<and> db_ok d'))"
proof (intro impI, elim conjE)
  assume ok: "db_ok d" and g: "getEvent d i = Some old_event"
    and u: "updateEvent d now i pe = Inr (d', res_event)"
  from ok have "distinct (map id_event (events d))" by (simp add: db_ok_def)
  from one_row_map [OF this, where i = i and old = old_event and f = "apply_partial_event pe now"] g
  obtain k where k: "k < length (events d)" "events d ! k = old_event"
    and m: "map (\<lambda>r. if id_event r = i then apply_partial_event pe now r else r) (events d) =
              (events d)[k := apply_partial_event pe now old_event]"
    and r: "first_row (map (apply_partial_event pe now) (filter (\<lambda>r. id_event r = i) (events d))) =
              Some (apply_partial_event pe now old_event)"
    by (auto simp: getEvent_def)
  from u m r have res: "res_event = Some (apply_partial_event pe now old_event)"
    and d': "d' = d\<lparr>events := (events d)[k := apply_partial_event pe now old_event]\<rparr>"
    and ok': "db_ok d'"
    by (auto simp: updateEvent_def commit_def getEvent_def split: if_splits)
  show "\<exists>new k. res_event = Some new \<and>
     id_event new = set_col (set_id_event pe) (id_event old_event) \<and>
     userId new = set_col (set_userId pe) (userId old_event) \<and>
     name_event new = set_col (set_name_event pe) (name_event old_event) \<and>
     description new = set_col (set_description pe) (description old_event) \<and>
     eventDate new = set_col (set_eventDate pe) (eventDate old_event) \<and>
     eventTime new = set_col (set_eventTime pe) (eventTime old_event) \<and>
     qrCodeUrl new = set_col (set_qrCodeUrl pe) (qrCodeUrl old_event) \<and>
     registrationUrl new = set_col (set_registrationUrl pe) (registrationUrl old_event) \<and>
     isActive new = set_col (set_isActive pe) (isActive old_event) \<and>
     createdAt_event new = set_col (set_createdAt_event pe) (createdAt_event old_event) \<and>
     updatedAt_event new = Some now \<and>
     k < length (events d) \<and> events d ! k = old_event \<and>
     d' = d\<lparr>events := (events d)[k := new]\<rparr> \<and> db_ok d'"
    using res d' ok' k
    by (intro exI [of _ "apply_partial_event pe now old_event"] exI [of _ k]) (simp add: apply_partial_event_def)
qed

lemma updateEvent_missing:
  "(db_ok d \<and> getEvent d i = None \<longrightarrow>
     updateEvent d now i pe = Inr (d, None))"
  using no_row_map [of "\<lambda>r. id_event r = i" "events d" "apply_partial_event pe now"]
  by (simp add: updateEvent_def commit_def getEvent_def)

lemma updateQrSettings_found:
  "(db_ok d \<and> first_row (filter (\<lambda>q. id_qr q = i) (qrSettings d)) = Some old_qr \<and>
  updateQrSettings d now i pq = Inr (d', res_qr) \<longrightarrow>
     (\<exists>new k. res_qr = Some new \<and>
        id_qr new = set_col (set_id_qr pq) (id_qr old_qr) \<and>
        eventId_qr new = set_col (set_eventId_qr pq) (eventId_qr old_qr) \<and>
        backgroundImage new = set_col (set_backgroundImage pq) (backgroundImage old_qr) \<and>
        qrSize new = set_col (set_qrSize pq) (qrSize old_qr) \<and>
        qrPosition new = set_col (set_qrPosition pq) (qrPosition old_qr) \<and>
        textOverlays new = set_col (set_textOverlays pq) (textOverlays old_qr) \<and>
        customFields new = set_col (set_customFields pq) (customFields old_qr) \<and>
        createdAt_qr new = set_col (set_createdAt_qr pq) (createdAt_qr old_qr) \<and>
        updatedAt_qr new = Some now \<and>
        k < length (qrSettings d) \<and> qrSettings d ! k = old_qr \<and>
        d' = d\<lparr>qrSettings := (qrSettings d)[k := new]\<rparr> \<and> db_ok d'))"
proof (intro impI, elim conjE)
  assume ok: "db_ok d" and g: "first_row (filter (\<lambda>q. id_qr q = i) (qrSettings d)) = Some old_qr"
    and u: "updateQrSettings d now i pq = Inr (d', res_qr)"
  from ok have "distinct (map id_qr (qrSettings d))" by (simp add: db_ok_def)
  from one_row_map [OF this, where i = i and old = old_qr and f = "apply_partial_qr pq now"] g
  obtain k where k: "k < length (qrSettings d)" "qrSettings d ! k = old_qr"
    and m: "map (\<lambda>r. if id_qr r = i then apply_partial_qr pq now r else r) (qrSettings d) =
              (qrSettings d)[k := apply_partial_qr pq now old_qr]"
    and r: "first_row (map (apply_partial_qr pq now) (filter (\<lambda>r. id_qr r = i) (qrSettings d))) =
              Some (apply_partial_qr pq now old_qr)"
    by (auto simp: first_row_def)
  from u m r have res: "res_qr = Some (apply_partial_qr pq now old_qr)"
    and d': "d' = d\<lparr>qrSettings := (qrSettings d)[k := apply_partial_qr pq now old_qr]\<rparr>"
    and ok': "db_ok d'"
    by (auto simp: updateQrSettings_def commit_def split: if_splits)
  show "\<exists>new k. res_qr = Some new \<and>
     id_qr new = set_col (set_id_qr pq) (id_qr old_qr) \<and>
     eventId_qr new = set_col (set_eventId_qr pq) (eventId_qr old_qr) \<and>
     backgroundImage new = set_col (set_backgroundImage pq) (backgroundImage old_qr) \<and>
     qrSize new = set_col (set_qrSize pq) (qrSize old_qr) \<and>
     qrPosition new = set_col (set_qrPosition pq) (qrPosition old_qr) \<and>
     textOverlays new = set_col (set_textOverlays pq) (textOverlays old_qr) \<and>
     customFields new = set_col (set_customFields pq) (customFields old_qr) \<and>
     createdAt_qr new = set_col (set_createdAt_qr pq) (createdAt_qr old_qr) \<and>
     updatedAt_qr new = Some now \<and>
     k < length (qrSettings d) \<and> qrSettings d ! k = old_qr \<and>
     d' = d\<lparr>qrSettings := (qrSettings d)[k := new]\<rparr> \<and> db_ok d'"
    using res d' ok' k
    by (intro exI [of _ "apply_partial_qr pq now old_qr"] exI [of _ k]) (simp add: apply_partial_qr_def)
qed

lemma updateQrSettings_missing:
  "(db_ok d \<and> first_row (filter (\<lambda>q. id_qr q = i) (qrSettings d)) = None \<and> qrSize_in_range pq \<longrightarrow>
     updateQrSettings d now i pq = Inr (d, None))"
  using no_row_map [of "\<lambda>r. id_qr r = i" "qrSettings d" "apply_partial_qr pq now"]
  by (simp add: updateQrSettings_def commit_def qrSize_in_range_def)

lemma updateFormSchema_found:
  "(db_ok d \<and> first_row (filter (\<lambda>f. id_fs f = i) (formSchemas d)) = Some old_fs \<and>
  updateFormSchema d now i pf = Inr (d', res_fs) \<longrightarrow>
     (\<exists>new k. res_fs = Some new \<and>
        id_fs new = set_col (set_id_fs pf) (id_fs old_fs) \<and>
        eventId_fs new = set_col (set_eventId_fs pf) (eventId_fs old_fs) \<and>
        schema_fs new = set_col (set_schema_fs pf) (schema_fs old_fs) \<and>
        layout new = set_col (set_layout pf) (layout old_fs) \<and>
        responsiveSettings new = set_col (set_responsiveSettings pf) (responsiveSettings old_fs) \<and>
        createdAt_fs new = set_col (set_createdAt_fs pf) (createdAt_fs old_fs) \<and>
        updatedAt_fs new = Some now \<and>
        k < length (formSchemas d) \<and> formSchemas d ! k = old_fs \<and>
        d' = d\<lparr>formSchemas := (formSchemas d)[k := new]\<rparr> \<and> db_ok d'))"
proof (intro impI, elim conjE)
  assume ok: "db_ok d" and g: "first_row (filter (\<lambda>f. id_fs f = i) (formSchemas d)) = Some old_fs"
    and u: "updateFormSchema d now i pf = Inr (d', res_fs)"
  from ok have "distinct (map id_fs (formSchemas d))" by (simp add: db_ok_def)
  from one_row_map [OF this, where i = i and old = old_fs and f = "apply_partial_fs pf now"] g
  obtain k where k: "k < length (formSchemas d)" "formSchemas d ! k = old_fs"
    and m: "map (\<lambda>r. if id_fs r = i then apply_partial_fs pf now r else r) (formSchemas d) =
              (formSchemas d)[k := apply_partial_fs pf now old_fs]"
    and r: "first_row (map (apply_partial_fs pf now) (filter (\<lambda>r. id_fs r = i) (formSchemas d))) =
              Some (apply_partial_fs pf now old_fs)"
    by (auto simp: first_row_def)
  from u m r have res: "res_fs = Some (apply_partial_fs pf now old_fs)"
    and d': "d' = d\<lparr>formSchemas := (formSchemas d)[k := apply_partial_fs pf now old_fs]\<rparr>"
    and ok': "db_ok d'"
    by (auto simp: updateFormSchema_def commit_def split: if_splits)
  show "\<exists>new k. res_fs = Some new \<and>
     id_fs new = set_col (set_id_fs pf) (id_fs old_fs) \<and>
     eventId_fs new = set_col (set_eventId_fs pf) (eventId_fs old_fs) \<and>
     schema_fs new = set_col (set_schema_fs pf) (schema_fs old_fs) \<and>
     layout new = set_col (set_layout pf) (layout old_fs) \<and>
     responsiveSettings new = set_col (set_responsiveSettings pf) (responsiveSettings old_fs) \<and>
     createdAt_fs new = set_col (set_createdAt_fs pf) (createdAt_fs old_fs) \<and>
     updatedAt_fs new = Some now \<and>
     k < length (formSchemas d) \<and> formSchemas d ! k = old_fs \<and>
     d' = d\<lparr>formSchemas := (formSchemas d)[k := new]\<rparr> \<and> db_ok d'"
    using res d' ok' k
    by (intro exI [of _ "apply_partial_fs pf now old_fs"] exI [of _ k]) (simp add: apply_partial_fs_def)
qed

lemma updateFormSchema_missing:
  "(db_ok d \<and> first_row (filter (\<lambda>f. id_fs f = i) (formSchemas d)) = None \<longrightarrow>
     updateFormSchema d now i pf = Inr (d, None))"
  using no_row_map [of "\<lambda>r. id_fs r = i" "formSchemas d" "apply_partial_fs pf now"]
  by (simp add: updateFormSchema_def commit_def)

lemma updateRegistration_found:
  "(db_ok d \<and> getRegistration d i = Some old_reg \<and>
  updateRegistration d i pr = Inr (d', res_reg) \<longrightarrow>
     (\<exists>new k. res_reg = Some new \<and>
        id_reg new = set_col (set_id_reg pr) (id_reg old_reg) \<and>
        eventId_reg new = set_col (set_eventId_reg pr) (eventId_reg old_reg) \<and>
        name_reg new = set_col (set_name_reg pr) (name_reg old_reg) \<and>
        phone new = set_col (set_phone pr) (phone old_reg) \<and>
        position new = set_col (set_position pr) (position old_reg) \<and>
        email_reg new = set_col (set_email_reg pr) (email_reg old_reg) \<and>
        customData new = set_col (set_customData pr) (customData old_reg) \<and>
        registeredAt new = set_col (set_registeredAt pr) (registeredAt old_reg) \<and>
        k < length (registrations d) \<and> registrations d ! k = old_reg \<and>
        d' = d\<lparr>registrations := (registrations d)[k := new]\<rparr> \<and> db_ok d'))"
proof (intro impI, elim conjE)
  assume ok: "db_ok d" and g: "getRegistration d i = Some old_reg"
    and u: "updateRegistration d i pr = Inr (d', res_reg)"
  from ok have "distinct (map id_reg (registrations d))" by (simp add: db_ok_def)
  from one_row_map [OF this, where i = i and old = old_reg and f = "apply_partial_reg pr"] g
  obtain k where k: "k < length (registrations d)" "registrations d ! k = old_reg"
    and m: "map (\<lambda>r. if id_reg r = i then apply_partial_reg pr r else r) (registrations d) =
              (registrations d)[k := apply_partial_reg pr old_reg]"
    and r: "first_row (map (apply_partial_reg pr) (filter (\<lambda>r. id_reg r = i) (registrations d))) =
              Some (apply_partial_reg pr old_reg)"
    by (auto simp: getRegistration_def)
  from u m r have res: "res_reg = Some (apply_partial_reg pr old_reg)"
    and d': "d' = d\<lparr>registrations := (registrations d)[k := apply_partial_reg pr old_reg]\<rparr>"
    and ok': "db_ok d'"
    by (auto simp: updateRegistration_def commit_def getRegistration_def split: if_splits)
  show "\<exists>new k. res_reg = Some new \<and>
     id_reg new = set_col (set_id_reg pr) (id_reg old_reg) \<and>
     eventId_reg new = set_col (set_eventId_reg pr) (eventId_reg old_reg) \<and>
     name_reg new = set_col (set_name_reg pr) (name_reg old_reg) \<and>
     phone new = set_col (set_phone pr) (phone old_reg) \<and>
     position new = set_col (set_position pr) (position old_reg) \<and>
     email_reg new = set_col (set_email_reg pr) (email_reg old_reg) \<and>
     customData new = set_col (set_customData pr) (customData old_reg) \<and>
     registeredAt new = set_col (set_registeredAt pr) (registeredAt old_reg) \<and>
     k < length (registrations d) \<and> registrations d ! k = old_reg \<and>
     d' = d\<lparr>registrations := (registrations d)[k := new]\<rparr> \<and> db_ok d'"
    using res d' ok' k
    by (intro exI [of _ "apply_partial_reg pr old_reg"] exI [of _ k]) (simp add: apply_partial_reg_def)
qed

lemma updateRegistration_missing:
  "(db_ok d \<and> getRegistration d i = None \<and> \<not> no_values pr \<longrightarrow>
     updateRegistration d i pr = Inr (d, None))"
  using no_row_map [of "\<lambda>r. id_reg r = i" "registrations d" "apply_partial_reg pr"]
  by (simp add: updateRegistration_def commit_def getRegistration_def)

lemma updateRegistration_empty:
  "no_values pr \<longrightarrow> updateRegistration d i pr = Inl NoValuesToSet"
  by (simp add: updateRegistration_def)

lemma updateQrSettings_range:
  "set_qrSize pq = Some (Some n) \<and> (n < - 2147483648 \<or> 2147483647 < n) \<longrightarrow>
     updateQrSettings d now i pq = Inl NumericValueOutOfRange"
  by (auto simp: updateQrSettings_def qrSize_in_range_def)

lemma updateFormSchema_null:
  "first_row (filter (\<lambda>f. id_fs f = i) (formSchemas d)) = Some old_fs \<and>
   set_schema_fs pf = Some JNull \<longrightarrow>
     updateFormSchema d now i pf = Inl ConstraintViolation"
proof (intro impI, elim conjE)
  assume g: "first_row (filter (\<lambda>f. id_fs f = i) (formSchemas d)) = Some old_fs"
    and n: "set_schema_fs pf = Some JNull"
  define d2 where
    "d2 = d\<lparr>formSchemas := map (\<lambda>f. if id_fs f = i then apply_partial_fs pf now f else f)
                                (formSchemas d)\<rparr>"
  from g obtain rest where "filter (\<lambda>f. id_fs f = i) (formSchemas d) = old_fs # rest"
    by (cases "filter (\<lambda>f. id_fs f = i) (formSchemas d)") (auto simp: first_row_def)
  then have "old_fs \<in> set (filter (\<lambda>f. id_fs f = i) (formSchemas d))" by simp
  then have mem: "old_fs \<in> set (formSchemas d)" and ki: "id_fs old_fs = i" by auto
  from mem ki have "apply_partial_fs pf now old_fs \<in> set (formSchemas d2)"
    unfolding d2_def by force
  moreover from n have "schema_fs (apply_partial_fs pf now old_fs) = JNull"
    by (simp add: apply_partial_fs_def)
  ultimately have "\<not> list_all (\<lambda>f. eventId_fs f \<in> set (map id_event (events d2)) \<and>
                                    schema_fs f \<noteq> JNull) (formSchemas d2)"
    unfolding list_all_iff by blast
  then have "\<not> db_ok d2" unfolding db_ok_def by blast
  then show "updateFormSchema d now i pf = Inl ConstraintViolation"
    by (simp add: updateFormSchema_def commit_def d2_def)
qed

lemma updateUser_accepted:
  "db_ok d \<and> getUser d i = Some old_user \<and>
   set_id_user pu = None \<and> set_username pu = None \<and> set_email_user pu = None \<and> set_role pu = None \<longrightarrow>
     (\<exists>d' new. updateUser d now i pu = Inr (d', Some new))"
proof (intro impI, elim conjE)
  assume ok: "db_ok d" and found: "getUser d i = Some old_user"
    and h: "set_id_user pu = None" "set_username pu = None" "set_email_user pu = None" "set_role pu = None"
  define g where "g = (\<lambda>r. if id_user r = i then apply_partial_user pu now r else r)"
  have keep: "id_user (g r) = id_user r" "username (g r) = username r" "email_user (g r) = email_user r" "role (g r) = role r" for r
    using h by (simp_all add: g_def apply_partial_user_def)
  then have maps: "map id_user (map g rows) = map id_user rows"
    "map username (map g rows) = map username rows"
    "map email_user (map g rows) = map email_user rows" for rows
    by (simp_all add: comp_def)
  have step: "(\<lambda>u. length (username u) \<le> 255 \<and> length (email_user u) \<le> 255 \<and>
                     length (role u) \<le> 50) r \<Longrightarrow>
              (\<lambda>u. length (username u) \<le> 255 \<and> length (email_user u) \<le> 255 \<and>
                     length (role u) \<le> 50) (g r)" for r
    using h by (cases "set_id_user pu") (auto simp: g_def apply_partial_user_def)
  have alls: "list_all (\<lambda>u. length (username u) \<le> 255 \<and> length (email_user u) \<le> 255 \<and>
                     length (role u) \<le> 50) rows \<Longrightarrow>
              list_all (\<lambda>u. length (username u) \<le> 255 \<and> length (email_user u) \<le> 255 \<and>
                     length (role u) \<le> 50) (map g rows)" for rows
    by (induction rows) (simp_all add: step del: int4.simps set_map)
  from ok alls [of "users d"] have "db_ok (d\<lparr>users := map g (users d)\<rparr>)"
    unfolding db_ok_def by (simp add: maps del: map_map)
  moreover from found have "first_row (map (apply_partial_user pu now)
      (filter (\<lambda>r. id_user r = i) (users d))) = Some (apply_partial_user pu now old_user)"
    by (cases "filter (\<lambda>r. id_user r = i) (users d)") (auto simp: getUser_def first_row_def)
  ultimately show "\<exists>d' new. updateUser d now i pu = Inr (d', Some new)"
    using h by (simp add: updateUser_def commit_def g_def)
qed

lemma updateEvent_accepted:
  "db_ok d \<and> getEvent d i = Some old_event \<and>
   set_id_event pe = None \<and> set_userId pe = None \<longrightarrow>
     (\<exists>d' new. updateEvent d now i pe = Inr (d', Some new))"
proof (intro impI, elim conjE)
  assume ok: "db_ok d" and found: "getEvent d i = Some old_event"
    and h: "set_id_event pe = None" "set_userId pe = None"
  define g where "g = (\<lambda>r. if id_event r = i then apply_partial_event pe now r else r)"
  have keep: "id_event (g r) = id_event r" "userId (g r) = userId r" for r
    using h by (simp_all add: g_def apply_partial_event_def)
  then have maps: "map id_event (map g rows) = map id_event rows" for rows
    by (simp_all add: comp_def)
  have step: "(\<lambda>e. userId e \<in> set (map id_user (users d))) r \<Longrightarrow>
              (\<lambda>e. userId e \<in> set (map id_user (users d))) (g r)" for r
    using h by (cases "set_id_event pe") (auto simp: g_def apply_partial_event_def)
  have alls: "list_all (\<lambda>e. userId e \<in> set (map id_user (users d))) rows \<Longrightarrow>
              list_all (\<lambda>e. userId e \<in> set (map id_user (users d))) (map g rows)" for rows
    by (induction rows) (simp_all add: step del: int4.simps set_map)
  from ok alls [of "events d"] have "db_ok (d\<lparr>events := map g (events d)\<rparr>)"
    unfolding db_ok_def by (simp add: maps del: map_map)
  moreover from found have "first_row (map (apply_partial_event pe now)
      (filter (\<lambda>r. id_event r = i) (events d))) = Some (apply_partial_event pe now old_event)"
    by (cases "filter (\<lambda>r. id_event r = i) (events d)") (auto simp: getEvent_def first_row_def)
  ultimately show "\<exists>d' new. updateEvent d now i pe = Inr (d', Some new)"
    using h by (simp add: updateEvent_def commit_def g_def)
qed

lemma updateQrSettings_accepted:
  "db_ok d \<and> first_row (filter (\<lambda>q. id_qr q = i) (qrSettings d)) = Some old_qr \<and>
   set_id_qr pq = None \<and> set_eventId_qr pq = None \<and> qrSize_in_range pq \<longrightarrow>
     (\<exists>d' new. updateQrSettings d now i pq = Inr (d', Some new))"
proof (intro impI, elim conjE)
  assume ok: "db_ok d" and found: "first_row (filter (\<lambda>q. id_qr q = i) (qrSettings d)) = Some old_qr"
    and h: "set_id_qr pq = None" "set_eventId_qr pq = None" "qrSize_in_range pq"
  define g where "g = (\<lambda>r. if id_qr r = i then apply_partial_qr pq now r else r)"
  have keep: "id_qr (g r) = id_qr r" "eventId_qr (g r) = eventId_qr r" for r
    using h by (simp_all add: g_def apply_partial_qr_def)
  then have maps: "map id_qr (map g rows) = map id_qr rows" for rows
    by (simp_all add: comp_def)
  have step: "(\<lambda>q. eventId_qr q \<in> set (map id_event (events d)) \<and> int4 (qrSize q)) r \<Longrightarrow>
              (\<lambda>q. eventId_qr q \<in> set (map id_event (events d)) \<and> int4 (qrSize q)) (g r)" for r
    using h by (cases "set_qrSize pq") (auto simp: g_def apply_partial_qr_def qrSize_in_range_def)
  have alls: "list_all (\<lambda>q. eventId_qr q \<in> set (map id_event (events d)) \<and> int4 (qrSize q)) rows \<Longrightarrow>
              list_all (\<lambda>q. eventId_qr q \<in> set (map id_event (events d)) \<and> int4 (qrSize q)) (map g rows)" for rows
    by (induction rows) (simp_all add: step del: int4.simps set_map)
  from ok alls [of "qrSettings d"] have "db_ok (d\<lparr>qrSettings := map g (qrSettings d)\<rparr>)"
    unfolding db_ok_def by (simp add: maps del: map_map)
  moreover from found have "first_row (map (apply_partial_qr pq now)
      (filter (\<lambda>r. id_qr r = i) (qrSettings d))) = Some (apply_partial_qr pq now old_qr)"
    by (cases "filter (\<lambda>r. id_qr r = i) (qrSettings d)") (auto simp: first_row_def)
  ultimately show "\<exists>d' new. updateQrSettings d now i pq = Inr (d', Some new)"
    using h by (simp add: updateQrSettings_def commit_def g_def)
qed

lemma updateFormSchema_accepted:
  "db_ok d \<and> first_row (filter (\<lambda>f. id_fs f = i) (formSchemas d)) = Some old_fs \<and>
   set_id_fs pf = None \<and> set_eventId_fs pf = None \<and> set_schema_fs pf \<noteq> Some JNull \<longrightarrow>
     (\<exists>d' new. updateFormSchema d now i pf = Inr (d', Some new))"
proof (intro impI, elim conjE)
  assume ok: "db_ok d" and found: "first_row (filter (\<lambda>f. id_fs f = i) (formSchemas d)) = Some old_fs"
    and h: "set_id_fs pf = None" "set_eventId_fs pf = None" "set_schema_fs pf \<noteq> Some JNull"
  define g where "g = (\<lambda>r. if id_fs r = i then apply_partial_fs pf now r else r)"
  have keep: "id_fs (g r) = id_fs r" "eventId_fs (g r) = eventId_fs r" for r
    using h by (simp_all add: g_def apply_partial_fs_def)
  then have maps: "map id_fs (map g rows) = map id_fs rows" for rows
    by (simp_all add: comp_def)
  have step: "(\<lambda>f. eventId_fs f \<in> set (map id_event (events d)) \<and> schema_fs f \<noteq> JNull) r \<Longrightarrow>
              (\<lambda>f. eventId_fs f \<in> set (map id_event (events d)) \<and> schema_fs f \<noteq> JNull) (g r)" for r
    using h by (cases "set_schema_fs pf") (auto simp: g_def apply_partial_fs_def)
  have alls: "list_all (\<lambda>f. eventId_fs f \<in> set (map id_event (events d)) \<and> schema_fs f \<noteq> JNull) rows \<Longrightarrow>
              list_all (\<lambda>f. eventId_fs f \<in> set (map id_event (events d)) \<and> schema_fs f \<noteq> JNull) (map g rows)" for rows
    by (induction rows) (simp_all add: step del: int4.simps set_map)
  from ok alls [of "formSchemas d"] have "db_ok (d\<lparr>formSchemas := map g (formSchemas d)\<rparr>)"
    unfolding db_ok_def by (simp add: maps del: map_map)
  moreover from found have "first_row (map (apply_partial_fs pf now)
      (filter (\<lambda>r. id_fs r = i) (formSchemas d))) = Some (apply_partial_fs pf now old_fs)"
    by (cases "filter (\<lambda>r. id_fs r = i) (formSchemas d)") (auto simp: first_row_def)
  ultimately show "\<exists>d' new. updateFormSchema d now i pf = Inr (d', Some new)"
    using h by (simp add: updateFormSchema_def commit_def g_def)
qed

lemma updateRegistration_accepted:
  "db_ok d \<and> getRegistration d i = Some old_reg \<and>
   set_id_reg pr = None \<and> set_eventId_reg pr = None \<and> \<not> no_values pr \<longrightarrow>
     (\<exists>d' new. updateRegistration d i pr = Inr (d', Some new))"
proof (intro impI, elim conjE)
  assume ok: "db_ok d" and found: "getRegistration d i = Some old_reg"
    and h: "set_id_reg pr = None" "set_eventId_reg pr = None" "\<not> no_values pr"
  define g where "g = (\<lambda>r. if id_reg r = i then apply_partial_reg pr r else r)"
  have keep: "id_reg (g r) = id_reg r" "eventId_reg (g r) = eventId_reg r" for r
    using h by (simp_all add: g_def apply_partial_reg_def)
  then have maps: "map id_reg (map g rows) = map id_reg rows" for rows
    by (simp_all add: comp_def)
  have step: "(\<lambda>r. eventId_reg r \<in> set (map id_event (events d))) r \<Longrightarrow>
              (\<lambda>r. eventId_reg r \<in> set (map id_event (events d))) (g r)" for r
    using h by (cases "set_id_reg pr") (auto simp: g_def apply_partial_reg_def)
  have alls: "list_all (\<lambda>r. eventId_reg r \<in> set (map id_event (events d))) rows \<Longrightarrow>
              list_all (\<lambda>r. eventId_reg r \<in> set (map id_event (events d))) (map g rows)" for rows
    by (induction rows) (simp_all add: step del: int4.simps set_map)
  from ok alls [of "registrations d"] have "db_ok (d\<lparr>registrations := map g (registrations d)\<rparr>)"
    unfolding db_ok_def by (simp add: maps del: map_map)
  moreover from found have "first_row (map (apply_partial_reg pr)
      (filter (\<lambda>r. id_reg r = i) (registrations d))) = Some (apply_partial_reg pr old_reg)"
    by (cases "filter (\<lambda>r. id_reg r = i) (registrations d)") (auto simp: getRegistration_def first_row_def)
  ultimately show "\<exists>d' new. updateRegistration d i pr = Inr (d', Some new)"
    using h by (simp add: updateRegistration_def commit_def g_def)
qed

lemma sample_updateRegistration:
  "updateRegistration sample_db ''r1'' rename_registration =
     Inr (sample_db\<lparr>registrations := [walkin\<lparr>name_reg := ''Dana''\<rparr>]\<rparr>,
          Some (walkin\<lparr>name_reg := ''Dana''\<rparr>)) \<and>
   registeredAt (walkin\<lparr>name_reg := ''Dana''\<rparr>) = Some 16"
  by (simp add: updateRegistration_def no_values_def rename_registration_def
        apply_partial_reg_def first_row_def commit_def db_ok_def sample_db_def
        alice_def bob_def root_def fair_def poster_def signup_form_def walkin_def)

lemma sample_updateUser:
  "updateUser sample_db 20 ''u1'' email_change =
     Inr (sample_db\<lparr>users := [alice\<lparr>email_user := ''alice@y.com'', updatedAt_user := Some 20\<rparr>,
                                bob, root]\<rparr>,
          Some (alice\<lparr>email_user := ''alice@y.com'', updatedAt_user := Some 20\<rparr>))"
  by (simp add: updateUser_def email_change_def
        apply_partial_user_def first_row_def commit_def db_ok_def sample_db_def
        alice_def bob_def root_def fair_def poster_def signup_form_def walkin_def)

lemma sample_rows:
  "getEvent sample_db ''e9'' = None"
  "first_row (filter (\<lambda>q. id_qr q = ''q1'') (qrSettings sample_db)) = Some poster"
  "first_row (filter (\<lambda>f. id_fs f = ''f1'') (formSchemas sample_db)) = Some signup_form"
  "getRegistration sample_db ''r1'' = Some walkin"
  "getRegistration sample_db ''r9'' = None"
  by (simp_all add: getEvent_def getRegistration_def first_row_def sample_db_def fair_def
        poster_def signup_form_def walkin_def)

lemma sample_partials:
  "set_id_reg rename_registration = None"
  "set_eventId_reg rename_registration = None"
  "\<not> no_values rename_registration"
  "no_values no_change_registration"
  "set_id_qr (resize_poster n) = None"
  "set_eventId_qr (resize_poster n) = None"
  "set_qrSize (resize_poster n) = Some (Some n)"
  "qrSize_in_range (resize_poster 300)"
  "set_schema_fs (schema_change v) = Some v"
  by (simp_all add: rename_registration_def no_change_registration_def no_values_def
        resize_poster_def schema_change_def qrSize_in_range_def)

text \<open>
  C6, as stated, fails for \<open>updateRegistration\<close>: a registration has no \<open>updatedAt\<close>,
  and the operation refreshes no timestamp. Renaming the registration of the sample
  store returns the row with the new name and every other field, \<open>registeredAt\<close>
  included, as before.
\<close>

theorem update_registration_counterexample:
  "updateRegistration sample_db ''r1'' rename_registration =
     Inr (sample_db\<lparr>registrations := [walkin\<lparr>name_reg := ''Dana''\<rparr>]\<rparr>,
          Some (walkin\<lparr>name_reg := ''Dana''\<rparr>)) \<and>
   registeredAt (walkin\<lparr>name_reg := ''Dana''\<rparr>) = Some 16"
  by (rule sample_updateRegistration)

text \<open>
  C6, amended. In a store that satisfies its constraints, with a row of the given id:
  when the store accepts the update, \<open>updateUser\<close>, \<open>updateEvent\<close>, \<open>updateQrSettings\<close>
  and \<open>updateFormSchema\<close> return the row with every supplied field set to the supplied
  value, every other field as before and \<open>updatedAt\<close> set to the current time (also
  when \<open>updatedAt\<close> is itself supplied); the stored database is the old one with that
  one row replaced by the returned row, and satisfies the constraints.
  \<open>updateRegistration\<close> does the same, but refreshes no timestamp: a registration has
  no \<open>updatedAt\<close>, and \<open>registeredAt\<close> is kept unless supplied. The store accepts every
  update that supplies no key column (the id, a unique or referencing column, the role),
  a \<open>qrSize\<close> within the 32-bit range and a \<open>schema\<close> other than null. On an id that no
  row has, each operation returns the not-found indicator and leaves the database as it
  is, \<open>updateQrSettings\<close> provided the supplied \<open>qrSize\<close> is in range and
  \<open>updateRegistration\<close> provided a field is supplied. \<open>updateRegistration\<close> with no
  field supplied throws, whether or not the row exists; \<open>updateQrSettings\<close> with a
  \<open>qrSize\<close> out of the 32-bit range and \<open>updateFormSchema\<close> that sets \<open>schema\<close> of an
  existing row to null are refused by the store.
\<close>

theorem update_frame:
  "(db_ok d \<and> getUser d i = Some old_user \<and>
   updateUser d now i pu = Inr (d', res_user) \<longrightarrow>
      (\<exists>new k. res_user = Some new \<and>
         id_user new = set_col (set_id_user pu) (id_user old_user) \<and>
         username new = set_col (set_username pu) (username old_user) \<and>
         email_user new = set_col (set_email_user pu) (email_user old_user) \<and>
         password new = set_col (set_password pu) (password old_user) \<and>
         role new = set_col (set_role pu) (role old_user) \<and>
         banned new = set_col (set_banned pu) (banned old_user) \<and>
         createdAt_user new = set_col (set_createdAt_user pu) (createdAt_user old_user) \<and>
         updatedAt_user new = Some now \<and>
         k < length (users d) \<and> users d ! k = old_user \<and>
         d' = d\<lparr>users := (users d)[k := new]\<rparr> \<and> db_ok d')) \<and>
   (db_ok d \<and> getUser d i = Some old_user \<and>
   set_id_user pu = None \<and> set_username pu = None \<and> set_email_user pu = None \<and> set_role pu = None \<longrightarrow>
      (\<exists>d' new. updateUser d now i pu = Inr (d', Some new))) \<and>
   (db_ok d \<and> getUser d i = None \<longrightarrow>
      updateUser d now i pu = Inr (d, None)) \<and>
   (db_ok d \<and> getEvent d i = Some old_event \<and>
   updateEvent d now i pe = Inr (d', res_event) \<longrightarrow>
      (\<exists>new k. res_event = Some new \<and>
         id_event new = set_col (set_id_event pe) (id_event old_event) \<and>
         userId new = set_col (set_userId pe) (userId old_event) \<and>
         name_event new = set_col (set_name_event pe) (name_event old_event) \<and>
         description new = set_col (set_description pe) (description old_event) \<and>
         eventDate new = set_col (set_eventDate pe) (eventDate old_event) \<and>
         eventTime new = set_col (set_eventTime pe) (eventTime old_event) \<and>
         qrCodeUrl new = set_col (set_qrCodeUrl pe) (qrCodeUrl old_event) \<and>
         registrationUrl new = set_col (set_registrationUrl pe) (registrationUrl old_event) \<and>
         isActive new = set_col (set_isActive pe) (isActive old_event) \<and>
         createdAt_event new = set_col (set_createdAt_event pe) (createdAt_event old_event) \<and>
         updatedAt_event new = Some now \<and>
         k < length (events d) \<and> events d ! k = old_event \<and>
         d' = d\<lparr>events := (events d)[k := new]\<rparr> \<and> db_ok d')) \<and>
   (db_ok d \<and> getEvent d i = Some old_event \<and>
   set_id_event pe = None \<and> set_userId pe = None \<longrightarrow>
      (\<exists>d' new. updateEvent d now i pe = Inr (d', Some new))) \<and>
   (db_ok d \<and> getEvent d i = None \<longrightarrow>
      updateEvent d now i pe = Inr (d, None)) \<and>
   (db_ok d \<and> first_row (filter (\<lambda>q. id_qr q = i) (qrSettings d)) = Some old_qr \<and>
   updateQrSettings d now i pq = Inr (d', res_qr) \<longrightarrow>
      (\<exists>new k. res_qr = Some new \<and>
         id_qr new = set_col (set_id_qr pq) (id_qr old_qr) \<and>
         eventId_qr new = set_col (set_eventId_qr pq) (eventId_qr old_qr) \<and>
         backgroundImage new = set_col (set_backgroundImage pq) (backgroundImage old_qr) \<and>
         qrSize new = set_col (set_qrSize pq) (qrSize old_qr) \<and>
         qrPosition new = set_col (set_qrPosition pq) (qrPosition old_qr) \<and>
         textOverlays new = set_col (set_textOverlays pq) (textOverlays old_qr) \<and>
         customFields new = set_col (set_customFields pq) (customFields old_qr) \<and>
         createdAt_qr new = set_col (set_createdAt_qr pq) (createdAt_qr old_qr) \<and>
         updatedAt_qr new = Some now \<and>
         k < length (qrSettings d) \<and> qrSettings d ! k = old_qr \<and>
         d' = d\<lparr>qrSettings := (qrSettings d)[k := new]\<rparr> \<and> db_ok d')) \<and>
   (db_ok d \<and> first_row (filter (\<lambda>q. id_qr q = i) (qrSettings d)) = Some old_qr \<and>
   set_id_qr pq = None \<and> set_eventId_qr pq = None \<and> qrSize_in_range pq \<longrightarrow>
      (\<exists>d' new. updateQrSettings d now i pq = Inr (d', Some new))) \<and>
   (db_ok d \<and> first_row (filter (\<lambda>q. id_qr q = i) (qrSettings d)) = None \<and> qrSize_in_range pq \<longrightarrow>
      updateQrSettings d now i pq = Inr (d, None)) \<and>
   (db_ok d \<and> first_row (filter (\<lambda>f. id_fs f = i) (formSchemas d)) = Some old_fs \<and>
   updateFormSchema d now i pf = Inr (d', res_fs) \<longrightarrow>
      (\<exists>new k. res_fs = Some new \<and>
         id_fs new = set_col (set_id_fs pf) (id_fs old_fs) \<and>
         eventId_fs new = set_col (set_eventId_fs pf) (eventId_fs old_fs) \<and>
         schema_fs new = set_col (set_schema_fs pf) (schema_fs old_fs) \<and>
         layout new = set_col (set_layout pf) (layout old_fs) \<and>
         responsiveSettings new = set_col (set_responsiveSettings pf) (responsiveSettings old_fs) \<and>
         createdAt_fs new = set_col (set_createdAt_fs pf) (createdAt_fs old_fs) \<and>
         updatedAt_fs new = Some now \<and>
         k < length (formSchemas d) \<and> formSchemas d ! k = old_fs \<and>
         d' = d\<lparr>formSchemas := (formSchemas d)[k := new]\<rparr> \<and> db_ok d')) \<and>
   (db_ok d \<and> first_row (filter (\<lambda>f. id_fs f = i) (formSchemas d)) = Some old_fs \<and>
   set_id_fs pf = None \<and> set_eventId_fs pf = None \<and> set_schema_fs pf \<noteq> Some JNull \<longrightarrow>
      (\<exists>d' new. updateFormSchema d now i pf = Inr (d', Some new))) \<and>
   (db_ok d \<and> first_row (filter (\<lambda>f. id_fs f = i) (formSchemas d)) = None \<longrightarrow>
      updateFormSchema d now i pf = Inr (d, None)) \<and>
   (db_ok d \<and> getRegistration d i = Some old_reg \<and>
   updateRegistration d i pr = Inr (d', res_reg) \<longrightarrow>
      (\<exists>new k. res_reg = Some new \<and>
         id_reg new = set_col (set_id_reg pr) (id_reg old_reg) \<and>
         eventId_reg new = set_col (set_eventId_reg pr) (eventId_reg old_reg) \<and>
         name_reg new = set_col (set_name_reg pr) (name_reg old_reg) \<and>
         phone new = set_col (set_phone pr) (phone old_reg) \<and>
         position new = set_col (set_position pr) (position old_reg) \<and>
         email_reg new = set_col (set_email_reg pr) (email_reg old_reg) \<and>
         customData new = set_col (set_customData pr) (customData old_reg) \<and>
         registeredAt new = set_col (set_registeredAt pr) (registeredAt old_reg) \<and>
         k < length (registrations d) \<and> registrations d ! k = old_reg \<and>
         d' = d\<lparr>registrations := (registrations d)[k := new]\<rparr> \<and> db_ok d')) \<and>
   (db_ok d \<and> getRegistration d i = Some old_reg \<and>
   set_id_reg pr = None \<and> set_eventId_reg pr = None \<and> \<not> no_values pr \<longrightarrow>
      (\<exists>d' new. updateRegistration d i pr = Inr (d', Some new))) \<and>
   (db_ok d \<and> getRegistration d i = None \<and> \<not> no_values pr \<longrightarrow>
      updateRegistration d i pr = Inr (d, None)) \<and>
   (no_values pr \<longrightarrow> updateRegistration d i pr = Inl NoValuesToSet) \<and>
   (set_qrSize pq = Some (Some n) \<and> (n < - 2147483648 \<or> 2147483647 < n) \<longrightarrow>
      updateQrSettings d now i pq = Inl NumericValueOutOfRange) \<and>
   (first_row (filter (\<lambda>f. id_fs f = i) (formSchemas d)) = Some old_fs \<and>
    set_schema_fs pf = Some JNull \<longrightarrow>
      updateFormSchema d now i pf = Inl ConstraintViolation)"
  by (intro conjI updateUser_found updateUser_accepted updateUser_missing
        updateEvent_found updateEvent_accepted updateEvent_missing
        updateQrSettings_found updateQrSettings_accepted updateQrSettings_missing
        updateFormSchema_found updateFormSchema_accepted updateFormSchema_missing
        updateRegistration_found updateRegistration_accepted updateRegistration_missing
        updateRegistration_empty updateQrSettings_range updateFormSchema_null)

theorem update_frame_witness:
  "updateUser sample_db 20 ''u1'' email_change =
     Inr (sample_db\<lparr>users := [alice\<lparr>email_user := ''alice@y.com'', updatedAt_user := Some 20\<rparr>,
                                bob, root]\<rparr>,
          Some (alice\<lparr>email_user := ''alice@y.com'', updatedAt_user := Some 20\<rparr>)) \<and>
   set_updatedAt_user email_change = Some (Some 1) \<and>
   (\<exists>k. k < length (users sample_db) \<and> users sample_db ! k = alice \<and>
        sample_db\<lparr>users := [alice\<lparr>email_user := ''alice@y.com'', updatedAt_user := Some 20\<rparr>,
                                bob, root]\<rparr> =
          sample_db\<lparr>users := (users sample_db)[k := alice\<lparr>email_user := ''alice@y.com'', updatedAt_user := Some 20\<rparr>]\<rparr>) \<and>
   db_ok (sample_db\<lparr>users := [alice\<lparr>email_user := ''alice@y.com'', updatedAt_user := Some 20\<rparr>,
                                bob, root]\<rparr>) \<and>
   updateEvent sample_db 20 ''e9'' no_change_event = Inr (sample_db, None) \<and>
   (\<exists>d' new. updateQrSettings sample_db 20 ''q1'' (resize_poster 300) = Inr (d', Some new)) \<and>
   (\<exists>d' new. updateRegistration sample_db ''r1'' rename_registration = Inr (d', Some new)) \<and>
   updateRegistration sample_db ''r9'' rename_registration = Inr (sample_db, None) \<and>
   updateRegistration sample_db ''r1'' no_change_registration = Inl NoValuesToSet \<and>
   updateQrSettings sample_db 20 ''q1'' (resize_poster 2147483648) = Inl NumericValueOutOfRange \<and>
   updateFormSchema sample_db 20 ''f1'' (schema_change JNull) = Inl ConstraintViolation"
proof -
  have supplied: "set_updatedAt_user email_change = Some (Some 1)"
    by (simp add: email_change_def)
  have found: "(\<exists>k. k < length (users sample_db) \<and> users sample_db ! k = alice \<and>
        sample_db\<lparr>users := [alice\<lparr>email_user := ''alice@y.com'', updatedAt_user := Some 20\<rparr>,
                                bob, root]\<rparr> =
          sample_db\<lparr>users := (users sample_db)[k := alice\<lparr>email_user := ''alice@y.com'', updatedAt_user := Some 20\<rparr>]\<rparr>) \<and>
     db_ok (sample_db\<lparr>users := [alice\<lparr>email_user := ''alice@y.com'', updatedAt_user := Some 20\<rparr>,
                                bob, root]\<rparr>)"
    using update_frame [where d = sample_db and now = 20 and i = "''u1''" and pu = email_change
            and old_user = alice
            and d' = "sample_db\<lparr>users := [alice\<lparr>email_user := ''alice@y.com'', updatedAt_user := Some 20\<rparr>,
                                bob, root]\<rparr>"
            and res_user = "Some (alice\<lparr>email_user := ''alice@y.com'', updatedAt_user := Some 20\<rparr>)",
            THEN conjunct1]
          sample_db_ok sample_getUser(1) sample_updateUser
    by auto
  have missing: "updateEvent sample_db 20 ''e9'' no_change_event = Inr (sample_db, None)"
    using update_frame [where d = sample_db and now = 20 and i = "''e9''" and pe = no_change_event,
            THEN conjunct2, THEN conjunct2, THEN conjunct2, THEN conjunct2, THEN conjunct2, THEN conjunct1]
          sample_db_ok sample_rows(1)
    by simp
  have resize: "\<exists>d' new. updateQrSettings sample_db 20 ''q1'' (resize_poster 300) = Inr (d', Some new)"
    using update_frame [where d = sample_db and now = 20 and i = "''q1''" and pq = "resize_poster 300"
            and old_qr = poster,
            THEN conjunct2, THEN conjunct2, THEN conjunct2, THEN conjunct2, THEN conjunct2, THEN conjunct2, THEN conjunct2, THEN conjunct1]
          sample_db_ok sample_rows(2) sample_partials(5,6,8)
    by simp
  have rename: "\<exists>d' new. updateRegistration sample_db ''r1'' rename_registration = Inr (d', Some new)"
    using update_frame [where d = sample_db and i = "''r1''" and pr = rename_registration
            and old_reg = walkin,
            THEN conjunct2, THEN conjunct2, THEN conjunct2, THEN conjunct2, THEN conjunct2, THEN conjunct2, THEN conjunct2, THEN conjunct2, THEN conjunct2, THEN conjunct2, THEN conjunct2, THEN conjunct2, THEN conjunct2, THEN conjunct1]
          sample_db_ok sample_rows(4) sample_partials(1,2,3)
    by simp
  have absent: "updateRegistration sample_db ''r9'' rename_registration = Inr (sample_db, None)"
    using update_frame [where d = sample_db and i = "''r9''" and pr = rename_registration,
            THEN conjunct2, THEN conjunct2, THEN conjunct2, THEN conjunct2, THEN conjunct2, THEN conjunct2, THEN conjunct2, THEN conjunct2, THEN conjunct2, THEN conjunct2, THEN conjunct2, THEN conjunct2, THEN conjunct2, THEN conjunct2, THEN conjunct1]
          sample_db_ok sample_rows(5) sample_partials(3)
    by simp
  have empty: "updateRegistration sample_db ''r1'' no_change_registration = Inl NoValuesToSet"
    using update_frame [where d = sample_db and i = "''r1''" and pr = no_change_registration,
            THEN conjunct2, THEN conjunct2, THEN conjunct2, THEN conjunct2, THEN conjunct2, THEN conjunct2, THEN conjunct2, THEN conjunct2, THEN conjunct2, THEN conjunct2, THEN conjunct2, THEN conjunct2, THEN conjunct2, THEN conjunct2, THEN conjunct2, THEN conjunct1]
          sample_partials(4)
    by simp
  have range: "updateQrSettings sample_db 20 ''q1'' (resize_poster 2147483648) =
                 Inl NumericValueOutOfRange"
    using update_frame [where d = sample_db and now = 20 and i = "''q1''"
            and pq = "resize_poster 2147483648" and n = 2147483648,
            THEN conjunct2, THEN conjunct2, THEN conjunct2, THEN conjunct2, THEN conjunct2, THEN conjunct2, THEN conjunct2, THEN conjunct2, THEN conjunct2, THEN conjunct2, THEN conjunct2, THEN conjunct2, THEN conjunct2, THEN conjunct2, THEN conjunct2, THEN conjunct2, THEN conjunct1]
          sample_partials(7)
    by simp
  have null: "updateFormSchema sample_db 20 ''f1'' (schema_change JNull) = Inl ConstraintViolation"
    using update_frame [where d = sample_db and now = 20 and i = "''f1''"
            and pf = "schema_change JNull" and old_fs = signup_form,
            THEN conjunct2, THEN conjunct2, THEN conjunct2, THEN conjunct2, THEN conjunct2, THEN conjunct2, THEN conjunct2, THEN conjunct2, THEN conjunct2, THEN conjunct2, THEN conjunct2, THEN conjunct2, THEN conjunct2, THEN conjunct2, THEN conjunct2, THEN conjunct2, THEN conjunct2]
          sample_rows(3) sample_partials(9)
    by simp
  from sample_updateUser supplied found missing resize rename absent empty range null
  show ?thesis by (intro conjI) (erule conjE, assumption)+
qed

end
